theory Spec2Isabelle
  imports Complex_Main
begin

chapter \<open>Pan-tilt pet tracker: control law, actuator guard and mode machine\<close>

text \<open>
  A shallow embedding of the tracking kernel of the repository:
  \<^item> \<^verbatim>\<open>modules/servo_controller.py\<close> (class \<^verbatim>\<open>ServoController\<close>),
  \<^item> \<^verbatim>\<open>modules/simple_p_controller.py\<close> (class \<^verbatim>\<open>SimpleProportionalController\<close>),
  \<^item> \<^verbatim>\<open>modules/pid_controller.py\<close> (class \<^verbatim>\<open>PIDController\<close>),
  \<^item> \<^verbatim>\<open>modules/tracking_coordinator.py\<close> (class \<^verbatim>\<open>TrackingCoordinator\<close>).

  Conventions of the embedding.
  \<^item> Python floats are modelled as \<^typ>\<open>real\<close>: comparisons, \<^verbatim>\<open>abs\<close>, \<^verbatim>\<open>max\<close> and clipping are
    exact on floats, products and sums are exact only up to rounding, and NaN and the
    infinities have no counterpart.
  \<^item> Every method takes the object and returns the object as the method leaves it,
    together with the returned value. A raised exception is a value of the result.
  \<^item> Each reading of the wall clock (\<^verbatim>\<open>time.time()\<close>, \<^verbatim>\<open>datetime.now()\<close>) is an
    argument, in seconds.
  \<^item> The physical servo driver, the camera and the detection model are libraries
    outside the repository; what they answer in one call is an argument.
  \<^item> Loggers, names and bus addresses are left out: no modelled method reads them.
  \<^item> A leading underscore of a Python name is dropped; a field name used by two classes
    gets the class as a prefix.
\<close>

section \<open>numpy.clip\<close>

text \<open>
  \<^verbatim>\<open>numpy.clip(a, a_min, a_max)\<close> is library code. Its documentation gives it as
  \<^verbatim>\<open>minimum(a_max, maximum(a, a_min))\<close>, with no check that \<^verbatim>\<open>a_min <= a_max\<close>: when
  \<^verbatim>\<open>a_min > a_max\<close> the result is \<^verbatim>\<open>a_max\<close>.
\<close>

definition clip :: "real \<Rightarrow> real \<Rightarrow> real \<Rightarrow> real" where
  "clip a a_min a_max = min a_max (max a a_min)"

section \<open>ServoController\<close>

datatype ServoStatus =
  Servo_UNINITIALIZED | Servo_INITIALIZING | Servo_READY | Servo_MOVING | Servo_ERROR

text \<open>
  \<open>pan_servo\<close> and \<open>tilt_servo\<close> hold the angle last assigned to the \<^verbatim>\<open>angle\<close> property of
  the two driver objects (\<open>None\<close>: nothing assigned yet).
\<close>

record ServoController =
  pan_min :: real
  pan_max :: real
  tilt_min :: real
  tilt_max :: real
  pan_servo :: "real option"
  tilt_servo :: "real option"
  current_pan_angle :: real
  current_tilt_angle :: real
  servo_status :: ServoStatus
  move_speed :: real
  settle_time :: real

text \<open>
  What the driver does with the two assignments of one \<^verbatim>\<open>_set_servo_angles\<close> call: each
  assignment either goes through or raises (a bus error, or the driver's own range check).
\<close>

record Driver =
  pan_write_ok :: bool
  tilt_write_ok :: bool

datatype ServoException = DriverException

definition ServoController_init :: "real \<times> real \<Rightarrow> real \<times> real \<Rightarrow> ServoController" where
  "ServoController_init pan_range tilt_range =
     \<lparr> pan_min = fst pan_range, pan_max = snd pan_range,
       tilt_min = fst tilt_range, tilt_max = snd tilt_range,
       pan_servo = None, tilt_servo = None,
       current_pan_angle = 0, current_tilt_angle = 0,
       servo_status = Servo_UNINITIALIZED,
       move_speed = 0.5, settle_time = 0.1 \<rparr>"

definition is_ready :: "ServoController \<Rightarrow> bool" where
  "is_ready c = (if servo_status c \<noteq> Servo_READY then False else True)"

definition is_pan_angle_safe :: "ServoController \<Rightarrow> real \<Rightarrow> bool" where
  "is_pan_angle_safe c angle = (pan_min c \<le> angle \<and> angle \<le> pan_max c)"

definition is_tilt_angle_safe :: "ServoController \<Rightarrow> real \<Rightarrow> bool" where
  "is_tilt_angle_safe c angle = (tilt_min c \<le> angle \<and> angle \<le> tilt_max c)"

definition is_angle_safe :: "ServoController \<Rightarrow> real \<Rightarrow> real \<Rightarrow> bool" where
  "is_angle_safe c pan tilt = (is_pan_angle_safe c pan \<and> is_tilt_angle_safe c tilt)"

definition pan_angle_to_servo :: "real \<Rightarrow> real" where
  "pan_angle_to_servo angle = angle + 90"

definition tilt_angle_to_servo :: "real \<Rightarrow> real" where
  "tilt_angle_to_servo angle = angle + 90"

text \<open>
  \<^verbatim>\<open>_set_servo_angles\<close>: the pan assignment, then the tilt assignment; the first one that
  raises ends the call, and what was assigned before it stays assigned.
\<close>

definition set_servo_angles ::
  "Driver \<Rightarrow> ServoController \<Rightarrow> real \<Rightarrow> real \<Rightarrow> ServoException option \<times> ServoController" where
  "set_servo_angles drv c pan_angle tilt_angle =
     (let pan_servo_angle = pan_angle_to_servo pan_angle;
          tilt_servo_angle = tilt_angle_to_servo tilt_angle
      in if \<not> pan_write_ok drv then (Some DriverException, c)
         else let c1 = c\<lparr>pan_servo := Some pan_servo_angle\<rparr>
              in if \<not> tilt_write_ok drv then (Some DriverException, c1)
                 else (None, c1\<lparr>tilt_servo := Some tilt_servo_angle\<rparr>))"

text \<open>
  \<^verbatim>\<open>set_angles\<close>: the readiness check, the range check, then the guarded write. The
  \<^verbatim>\<open>except\<close> branch sets the status to \<^verbatim>\<open>ERROR\<close> and returns \<^verbatim>\<open>False\<close>; the recorded angles
  are assigned only after the write went through.
\<close>

definition set_angles ::
  "Driver \<Rightarrow> ServoController \<Rightarrow> real \<Rightarrow> real \<Rightarrow> bool \<times> ServoController" where
  "set_angles drv c pan_angle tilt_angle =
     (if \<not> is_ready c then (False, c)
      else if \<not> is_angle_safe c pan_angle tilt_angle then (False, c)
      else (case set_servo_angles drv (c\<lparr>servo_status := Servo_MOVING\<rparr>) pan_angle tilt_angle of
              (Some e, c1) \<Rightarrow> (False, c1\<lparr>servo_status := Servo_ERROR\<rparr>)
            | (None, c1) \<Rightarrow>
                (True, c1\<lparr>current_pan_angle := pan_angle,
                          current_tilt_angle := tilt_angle,
                          servo_status := Servo_READY\<rparr>)))"

definition get_current_angles :: "ServoController \<Rightarrow> real \<times> real" where
  "get_current_angles c = (current_pan_angle c, current_tilt_angle c)"

definition move_to_center :: "Driver \<Rightarrow> ServoController \<Rightarrow> bool \<times> ServoController" where
  "move_to_center drv c = set_angles drv c 0 0"

text \<open>
  \<^verbatim>\<open>initialize\<close>: \<open>bus_ok\<close> says whether the bus and the driver objects came up without an
  exception; the centre position is then written through \<^verbatim>\<open>_set_servo_angles\<close>.
\<close>

definition initialize :: "bool \<Rightarrow> Driver \<Rightarrow> ServoController \<Rightarrow> bool \<times> ServoController" where
  "initialize bus_ok drv c =
     (let c1 = c\<lparr>servo_status := Servo_INITIALIZING\<rparr>
      in if \<not> bus_ok then (False, c1\<lparr>servo_status := Servo_ERROR\<rparr>)
         else (case set_servo_angles drv c1 0 0 of
                 (Some e, c2) \<Rightarrow> (False, c2\<lparr>servo_status := Servo_ERROR\<rparr>)
               | (None, c2) \<Rightarrow>
                   (True, c2\<lparr>current_pan_angle := 0, current_tilt_angle := 0,
                             servo_status := Servo_READY\<rparr>)))"

definition driver_ok :: Driver where
  "driver_ok = \<lparr> pan_write_ok = True, tilt_write_ok = True \<rparr>"

definition driver_pan_fails :: Driver where
  "driver_pan_fails = \<lparr> pan_write_ok = False, tilt_write_ok = True \<rparr>"

text \<open>A controller with the default ranges, after a successful \<^verbatim>\<open>initialize\<close>.\<close>

definition ready_servo :: ServoController where
  "ready_servo = snd (initialize True driver_ok (ServoController_init (-90, 90) (-45, 45)))"

section \<open>SimpleProportionalController\<close>

datatype SimplePStatus =
  SimpleP_UNINITIALIZED | SimpleP_READY | SimpleP_RUNNING | SimpleP_ERROR

record SimplePState =
  last_error :: "real \<times> real"
  last_output :: "real \<times> real"
  last_update_time :: real
  total_corrections :: nat

text \<open>One entry of \<^verbatim>\<open>performance_history\<close> (a dictionary with these five keys).\<close>

record SimplePEntry =
  sp_timestamp :: real
  sp_detection_center :: "real \<times> real"
  sp_error :: "real \<times> real"
  sp_correction :: "real \<times> real"
  sp_is_in_deadband :: bool

record SimpleProportionalController =
  image_width :: int
  image_height :: int
  image_center :: "int \<times> int"
  pan_gain :: real
  tilt_gain :: real
  max_correction :: real
  deadband :: real
  simple_p_state :: SimplePState
  simple_p_status :: SimplePStatus
  simple_p_history :: "SimplePEntry list"
  simple_p_start_time :: real

text \<open>
  The constructor reads the clock twice (\<open>t_start\<close>, then \<open>t_ready\<close>); \<^verbatim>\<open>//\<close> on integers is
  \<open>div\<close>.
\<close>

definition SimpleProportionalController_init ::
  "int \<Rightarrow> int \<Rightarrow> real \<Rightarrow> real \<Rightarrow> real \<Rightarrow> real \<Rightarrow> real \<Rightarrow> real \<Rightarrow> SimpleProportionalController" where
  "SimpleProportionalController_init w h pg tg mc db t_start t_ready =
     \<lparr> image_width = w, image_height = h, image_center = (w div 2, h div 2),
       pan_gain = pg, tilt_gain = tg, max_correction = mc, deadband = db,
       simple_p_state = \<lparr> last_error = (0, 0), last_output = (0, 0),
                          last_update_time = t_ready, total_corrections = 0 \<rparr>,
       simple_p_status = SimpleP_READY,
       simple_p_history = [],
       simple_p_start_time = t_start \<rparr>"

text \<open>The constructor's default arguments.\<close>

definition SimpleProportionalController_default ::
  "int \<Rightarrow> int \<Rightarrow> real \<Rightarrow> real \<Rightarrow> SimpleProportionalController" where
  "SimpleProportionalController_default w h t_start t_ready =
     SimpleProportionalController_init w h 0.0156 0.0208 15 5 t_start t_ready"

text \<open>
  \<^verbatim>\<open>calculate_correction\<close>. With numbers for the detection centre nothing in the
  \<^verbatim>\<open>try\<close> block raises, so the \<^verbatim>\<open>except\<close> branch (the only place that sets the status to
  \<^verbatim>\<open>ERROR\<close>) has no counterpart; the \<^verbatim>\<open>ERROR\<close> status itself is a value of the status field
  and the guard on it is the first branch.
\<close>

definition calculate_correction ::
  "real \<Rightarrow> SimpleProportionalController \<Rightarrow> real \<times> real
     \<Rightarrow> (real \<times> real) \<times> SimpleProportionalController" where
  "calculate_correction current_time c detection_center =
     (if simple_p_status c = SimpleP_ERROR then ((0, 0), c)
      else
        let x_error0 = fst detection_center - real_of_int (fst (image_center c));
            y_error0 = snd detection_center - real_of_int (snd (image_center c));
            x_error = (if \<bar>x_error0\<bar> < deadband c then 0 else x_error0);
            y_error = (if \<bar>y_error0\<bar> < deadband c then 0 else y_error0);
            pan_correction = clip (x_error * pan_gain c) (- max_correction c) (max_correction c);
            tilt_correction = clip (- y_error * tilt_gain c) (- max_correction c) (max_correction c);
            st = (simple_p_state c)
                   \<lparr> last_error := (x_error, y_error),
                     last_output := (pan_correction, tilt_correction),
                     last_update_time := current_time,
                     total_corrections := total_corrections (simple_p_state c) + 1 \<rparr>;
            entry = \<lparr> sp_timestamp = current_time,
                      sp_detection_center = detection_center,
                      sp_error = (x_error, y_error),
                      sp_correction = (pan_correction, tilt_correction),
                      sp_is_in_deadband = (\<bar>x_error\<bar> < deadband c \<and> \<bar>y_error\<bar> < deadband c) \<rparr>;
            hist = simple_p_history c @ [entry];
            hist' = (if length hist > 50 then tl hist else hist)
        in ((pan_correction, tilt_correction),
            c\<lparr> simple_p_state := st, simple_p_history := hist',
               simple_p_status := SimpleP_READY \<rparr>))"

definition set_gains ::
  "SimpleProportionalController \<Rightarrow> real \<Rightarrow> real \<Rightarrow> SimpleProportionalController" where
  "set_gains c pg tg = c\<lparr> pan_gain := pg, tilt_gain := tg \<rparr>"

definition set_max_correction ::
  "SimpleProportionalController \<Rightarrow> real \<Rightarrow> SimpleProportionalController" where
  "set_max_correction c mc = c\<lparr> max_correction := mc \<rparr>"

definition set_deadband ::
  "SimpleProportionalController \<Rightarrow> real \<Rightarrow> SimpleProportionalController" where
  "set_deadband c db = c\<lparr> deadband := db \<rparr>"

text \<open>\<^verbatim>\<open>reset\<close> of the proportional controller; \<open>now\<close> is its clock reading.\<close>

definition simple_p_reset ::
  "real \<Rightarrow> SimpleProportionalController \<Rightarrow> SimpleProportionalController" where
  "simple_p_reset now c =
     (let c1 = c\<lparr> simple_p_state :=
                     \<lparr> last_error = (0, 0), last_output = (0, 0),
                       last_update_time = now, total_corrections = 0 \<rparr>,
                   simple_p_history := [] \<rparr>
      in if simple_p_status c1 \<noteq> SimpleP_ERROR
         then c1\<lparr> simple_p_status := SimpleP_READY \<rparr> else c1)"

section \<open>PIDController\<close>

datatype PIDStatus =
  PID_UNINITIALIZED | PID_READY | PID_RUNNING | PID_SATURATED | PID_ERROR

datatype PIDException = PIDError

record PIDState =
  proportional :: real
  integral :: real
  derivative :: real
  prev_error :: real
  prev_time :: real
  "output" :: real
  is_saturated :: bool

text \<open>One entry of the PID controller's \<^verbatim>\<open>performance_history\<close>.\<close>

record PIDEntry =
  h_timestamp :: real
  h_error :: real
  h_output :: real
  h_p_term :: real
  h_i_term :: real
  h_d_term :: real
  h_is_saturated :: bool

record PIDController =
  kP :: real
  kI :: real
  kD :: real
  output_limits :: "real \<times> real"
  integral_limits :: "real \<times> real"
  sample_time :: real
  pid_state :: PIDState
  pid_status :: PIDStatus
  update_count :: nat
  saturation_count :: nat
  pid_history :: "PIDEntry list"
  pid_start_time :: real
  total_updates :: nat
  average_update_time :: real

text \<open>
  The constructor stores the limits it is given without comparing them; it reads the clock
  twice.
\<close>

definition PIDController_init ::
  "real \<Rightarrow> real \<Rightarrow> real \<Rightarrow> real \<times> real \<Rightarrow> real \<times> real \<Rightarrow> real \<Rightarrow> real \<Rightarrow> real \<Rightarrow> PIDController" where
  "PIDController_init p i d out_lim int_lim st t_start t_ready =
     \<lparr> kP = p, kI = i, kD = d,
       output_limits = out_lim, integral_limits = int_lim, sample_time = st,
       pid_state = \<lparr> proportional = 0, integral = 0, derivative = 0, prev_error = 0,
                     prev_time = t_ready, output = 0, is_saturated = False \<rparr>,
       pid_status = PID_READY,
       update_count = 0, saturation_count = 0, pid_history = [],
       pid_start_time = t_start, total_updates = 0, average_update_time = 0 \<rparr>"

text \<open>The constructor's default limits and sample time.\<close>

definition PIDController_default :: "real \<Rightarrow> real \<Rightarrow> real \<Rightarrow> real \<Rightarrow> real \<Rightarrow> PIDController" where
  "PIDController_default p i d t_start t_ready =
     PIDController_init p i d (-90, 90) (-50, 50) 0.01 t_start t_ready"

text \<open>
  \<^verbatim>\<open>update\<close> reads the clock three times: \<open>update_start_time\<close>, \<open>current_time\<close> and, for the
  running mean of the update time, \<open>t_end\<close>. The early return on the sample time happens
  after the status was set to \<^verbatim>\<open>RUNNING\<close> and leaves it so. With a number for the error
  nothing in the \<^verbatim>\<open>try\<close> block raises (each division is guarded).
\<close>

definition update ::
  "real \<Rightarrow> real \<Rightarrow> real \<Rightarrow> PIDController \<Rightarrow> real \<Rightarrow> real \<times> PIDController" where
  "update update_start_time current_time t_end c error =
     (if pid_status c = PID_ERROR then (0, c)
      else
        let c1 = c\<lparr> pid_status := PID_RUNNING \<rparr>;
            s = pid_state c1;
            delta_time = current_time - prev_time s
        in if delta_time < sample_time c1 \<and> total_updates c1 > 0 then (output s, c1)
           else
             let p = kP c1 * error;
                 integ = (if delta_time > 0
                          then clip (integral s + error * delta_time)
                                 (fst (integral_limits c1)) (snd (integral_limits c1))
                          else integral s);
                 integral_term = kI c1 * integ;
                 d = (if delta_time > 0 \<and> total_updates c1 > 0
                      then kD c1 * ((error - prev_error s) / delta_time) else 0);
                 raw_output = p + integral_term + d;
                 out = clip raw_output (fst (output_limits c1)) (snd (output_limits c1));
                 sat = (\<bar>raw_output\<bar> > max \<bar>fst (output_limits c1)\<bar> \<bar>snd (output_limits c1)\<bar>);
                 s' = \<lparr> proportional = p, integral = integ, derivative = d,
                        prev_error = error, prev_time = current_time,
                        output = out, is_saturated = sat \<rparr>;
                 n = total_updates c1 + 1;
                 update_time = t_end - update_start_time;
                 entry = \<lparr> h_timestamp = current_time, h_error = error, h_output = out,
                           h_p_term = p, h_i_term = integral_term, h_d_term = d,
                           h_is_saturated = sat \<rparr>;
                 hist = pid_history c1 @ [entry];
                 hist' = (if length hist > 100 then tl hist else hist)
             in (out,
                 c1\<lparr> pid_state := s',
                     saturation_count := (if sat then saturation_count c1 + 1
                                          else saturation_count c1),
                     pid_status := (if sat then PID_SATURATED else PID_READY),
                     total_updates := n,
                     average_update_time :=
                       (average_update_time c1 * real (n - 1) + update_time) / real n,
                     pid_history := hist' \<rparr>))"

text \<open>\<^verbatim>\<open>reset\<close> of the PID controller: \<^verbatim>\<open>total_updates\<close> is not among the fields it clears.\<close>

definition pid_reset :: "real \<Rightarrow> PIDController \<Rightarrow> PIDController" where
  "pid_reset now c =
     (let c1 = c\<lparr> pid_state :=
                     \<lparr> proportional = 0, integral = 0, derivative = 0, prev_error = 0,
                       prev_time = now, output = 0, is_saturated = False \<rparr>,
                   saturation_count := 0,
                   pid_history := [] \<rparr>
      in if pid_status c1 \<noteq> PID_ERROR then c1\<lparr> pid_status := PID_READY \<rparr> else c1)"

definition set_parameters :: "PIDController \<Rightarrow> real \<Rightarrow> real \<Rightarrow> real \<Rightarrow> PIDController" where
  "set_parameters c p i d = c\<lparr> kP := p, kI := i, kD := d \<rparr>"

text \<open>
  The two limit setters raise \<^verbatim>\<open>PIDError\<close> before any assignment; the result pairs the
  exception (if any) with the controller as the call leaves it.
\<close>

definition set_output_limits ::
  "PIDController \<Rightarrow> real \<Rightarrow> real \<Rightarrow> PIDException option \<times> PIDController" where
  "set_output_limits c min_output max_output =
     (if min_output \<ge> max_output then (Some PIDError, c)
      else (None, c\<lparr> output_limits := (min_output, max_output) \<rparr>))"

definition set_integral_limits ::
  "PIDController \<Rightarrow> real \<Rightarrow> real \<Rightarrow> PIDException option \<times> PIDController" where
  "set_integral_limits c min_integral max_integral =
     (if min_integral \<ge> max_integral then (Some PIDError, c)
      else (None, c\<lparr> integral_limits := (min_integral, max_integral) \<rparr>))"

text \<open>
  A sequence of \<^verbatim>\<open>update\<close> calls on one controller: each element gives the three clock
  readings and the error of one call.
\<close>

fun run_updates :: "PIDController \<Rightarrow> (real \<times> real \<times> real \<times> real) list \<Rightarrow> PIDController" where
  "run_updates c [] = c"
| "run_updates c ((t0, t1, t2, e) # calls) = run_updates (snd (update t0 t1 t2 c e)) calls"

section \<open>TrackingCoordinator\<close>

datatype TrackingMode = STANDBY | SCANNING | TRACKING

record SystemStatus =
  mode :: TrackingMode
  target_detected :: bool
  target_class :: string
  target_confidence :: real
  pan_angle :: real
  tilt_angle :: real
  correction_applied :: "real \<times> real"
  last_detection_time :: "real option"
  total_detections :: nat
  tracking_duration :: real

text \<open>
  A detection as \<^verbatim>\<open>_update_tracking_control\<close> reads it: a dictionary (the parameter is
  annotated \<^verbatim>\<open>List[Dict]\<close>) with the keys \<^verbatim>\<open>class_name\<close>, \<^verbatim>\<open>confidence\<close> and \<^verbatim>\<open>bbox\<close>, the box
  being \<open>(x1, y1, x2, y2)\<close>.
\<close>

record Detection =
  class_name :: string
  confidence :: real
  bbox :: "real \<times> real \<times> real \<times> real"

text \<open>
  The camera and the detector objects are not read by the modelled methods and have no
  field; \<open>servo_controller\<close> and \<open>simple_p_controller\<close> are \<open>None\<close> until
  \<^verbatim>\<open>initialize_system\<close> creates them.
\<close>

record TrackingCoordinator =
  coordinator_image_width :: int
  coordinator_image_height :: int
  detection_interval :: real
  lost_target_timeout :: real
  status :: SystemStatus
  is_running :: bool
  system_start_time :: "real option"
  servo_controller :: "ServoController option"
  simple_p_controller :: "SimpleProportionalController option"

definition SystemStatus_init :: SystemStatus where
  "SystemStatus_init =
     \<lparr> mode = STANDBY, target_detected = False, target_class = [],
       target_confidence = 0, pan_angle = 0, tilt_angle = 0,
       correction_applied = (0, 0), last_detection_time = None,
       total_detections = 0, tracking_duration = 0 \<rparr>"

definition TrackingCoordinator_init :: "int \<Rightarrow> int \<Rightarrow> real \<Rightarrow> real \<Rightarrow> TrackingCoordinator" where
  "TrackingCoordinator_init w h interval timeout =
     \<lparr> coordinator_image_width = w, coordinator_image_height = h,
       detection_interval = interval, lost_target_timeout = timeout,
       status = SystemStatus_init, is_running = False, system_start_time = None,
       servo_controller = None, simple_p_controller = None \<rparr>"

text \<open>The constructor's default arguments.\<close>

definition TrackingCoordinator_default :: TrackingCoordinator where
  "TrackingCoordinator_default = TrackingCoordinator_init 640 480 0.5 5"

text \<open>
  What the outside answers during one \<^verbatim>\<open>initialize_system\<close> call. A step of the outside
  that raises is caught by the method's handler and has the outcome of the same step
  answering "failed"; both are the value \<open>False\<close> here.
\<close>

record InitEnv =
  camera_is_opened :: bool
  servo_bus_ok :: bool
  init_driver :: Driver
  center_driver :: Driver
  model_loaded :: bool
  p_start_clock :: real
  p_ready_clock :: real
  start_clock :: real

text \<open>
  \<^verbatim>\<open>initialize_system\<close>: camera, servo controller (then the move to the centre, whose
  result is not looked at), detector, proportional controller; the mode is assigned last.
\<close>

definition initialize_system :: "InitEnv \<Rightarrow> TrackingCoordinator \<Rightarrow> bool \<times> TrackingCoordinator" where
  "initialize_system env c =
     (if \<not> camera_is_opened env then (False, c)
      else
        let (ok, sv) = initialize (servo_bus_ok env) (init_driver env)
                         (ServoController_init (-90, 90) (-45, 45));
            c1 = c\<lparr> servo_controller := Some sv \<rparr>
        in if \<not> ok then (False, c1)
           else
             let sv' = snd (move_to_center (center_driver env) sv);
                 c2 = c1\<lparr> servo_controller := Some sv',
                          status := (status c1)\<lparr> pan_angle := 0, tilt_angle := 0 \<rparr> \<rparr>
             in if \<not> model_loaded env then (False, c2)
                else
                  let c3 = c2\<lparr> simple_p_controller :=
                                  Some (SimpleProportionalController_default
                                          (coordinator_image_width c2)
                                          (coordinator_image_height c2)
                                          (p_start_clock env) (p_ready_clock env)) \<rparr>
                  in (True, c3\<lparr> system_start_time := Some (start_clock env),
                                status := (status c3)\<lparr> mode := SCANNING \<rparr> \<rparr>))"

text \<open>
  \<^verbatim>\<open>_execute_scan_pattern\<close>; \<open>current_time\<close> is its \<^verbatim>\<open>time.time()\<close>. With no servo
  controller the attribute access raises and the method's handler ends the call.
\<close>

definition execute_scan_pattern ::
  "Driver \<Rightarrow> real \<Rightarrow> TrackingCoordinator \<Rightarrow> TrackingCoordinator" where
  "execute_scan_pattern drv current_time c =
     (let angle_offset = 30 * sin (current_time * 0.1);
          new_pan = angle_offset
      in case servo_controller c of
           None \<Rightarrow> c
         | Some sv \<Rightarrow>
             if is_angle_safe sv new_pan 0
             then let sv' = snd (set_angles drv sv new_pan 0)
                  in c\<lparr> servo_controller := Some sv',
                        status := (status c)\<lparr> pan_angle := new_pan, tilt_angle := 0 \<rparr> \<rparr>
             else c)"

text \<open>
  \<^verbatim>\<open>_update_tracking_control\<close>, one control cycle. \<open>time_now\<close> is the \<^verbatim>\<open>time.time()\<close> of
  the cycle (read by the controller or by the scan step), \<open>dt_now\<close> its \<^verbatim>\<open>datetime.now()\<close>.
  Where a component is \<open>None\<close> the attribute access raises and the handler of the method
  ends the cycle: the assignments made before stay.
\<close>

definition update_tracking_control ::
  "Driver \<Rightarrow> real \<Rightarrow> real \<Rightarrow> TrackingCoordinator \<Rightarrow> Detection list \<Rightarrow> TrackingCoordinator" where
  "update_tracking_control drv time_now dt_now c detections =
     (case detections of
        detection # _ \<Rightarrow>
          let c1 = (if mode (status c) \<noteq> TRACKING
                    then c\<lparr> status := (status c)\<lparr> mode := TRACKING \<rparr> \<rparr> else c);
              (x1, y1, x2, y2) = bbox detection;
              center_x = (x1 + x2) / 2;
              center_y = (y1 + y2) / 2
          in (case simple_p_controller c1 of
                None \<Rightarrow> c1
              | Some p \<Rightarrow>
                  let (correction, p') = calculate_correction time_now p (center_x, center_y);
                      c2 = c1\<lparr> simple_p_controller := Some p' \<rparr>;
                      new_pan = pan_angle (status c2) + fst correction;
                      new_tilt = tilt_angle (status c2) + snd correction
                  in (case servo_controller c2 of
                        None \<Rightarrow> c2
                      | Some sv \<Rightarrow>
                          let c3 = (if is_angle_safe sv new_pan new_tilt
                                    then let sv' = snd (set_angles drv sv new_pan new_tilt)
                                         in c2\<lparr> servo_controller := Some sv',
                                                status := (status c2)
                                                  \<lparr> pan_angle := new_pan,
                                                    tilt_angle := new_tilt,
                                                    correction_applied := correction \<rparr> \<rparr>
                                    else c2)
                          in c3\<lparr> status := (status c3)
                                   \<lparr> target_detected := True,
                                     target_class := class_name detection,
                                     target_confidence := confidence detection,
                                     last_detection_time := Some dt_now \<rparr> \<rparr>))
      | [] \<Rightarrow>
          let c1 = c\<lparr> status := (status c)\<lparr> target_detected := False \<rparr> \<rparr>
          in if (case last_detection_time (status c1) of
                   None \<Rightarrow> False
                 | Some t0 \<Rightarrow> dt_now - t0 > lost_target_timeout c1)
             then
               let c2 = (if mode (status c1) = TRACKING
                         then c1\<lparr> status := (status c1)\<lparr> mode := SCANNING \<rparr> \<rparr> else c1)
               in execute_scan_pattern drv time_now c2
             else c1)"

text \<open>\<^verbatim>\<open>_update_system_status\<close>, the bookkeeping at the end of a cycle.\<close>

definition update_system_status ::
  "real \<Rightarrow> TrackingCoordinator \<Rightarrow> Detection list \<Rightarrow> TrackingCoordinator" where
  "update_system_status dt_now c detections =
     (let c1 = (if detections \<noteq> []
                then c\<lparr> status := (status c)
                         \<lparr> total_detections := total_detections (status c) + 1 \<rparr> \<rparr>
                else c)
      in case system_start_time c1 of
           None \<Rightarrow> c1
         | Some t0 \<Rightarrow> c1\<lparr> status := (status c1)\<lparr> tracking_duration := dt_now - t0 \<rparr> \<rparr>)"

text \<open>An environment in which every step of the initialization succeeds.\<close>

definition env_ok :: InitEnv where
  "env_ok = \<lparr> camera_is_opened = True, servo_bus_ok = True,
              init_driver = driver_ok, center_driver = driver_ok, model_loaded = True,
              p_start_clock = 0, p_ready_clock = 0, start_clock = 0 \<rparr>"


text \<open>The coordinator with the default arguments after a successful initialization.\<close>

definition scanning_coordinator :: TrackingCoordinator where
  "scanning_coordinator = snd (initialize_system env_ok TrackingCoordinator_default)"

definition dog :: "real \<times> real \<times> real \<times> real \<Rightarrow> Detection" where
  "dog box = \<lparr> class_name = ''Dog'', confidence = 0.85, bbox = box \<rparr>"

section \<open>Concrete objects used by the examples\<close>

text \<open>A proportional controller and a PID controller whose status is \<^verbatim>\<open>ERROR\<close>.\<close>

definition p_err :: SimpleProportionalController where
  "p_err = (SimpleProportionalController_default 640 480 0 0)\<lparr> simple_p_status := SimpleP_ERROR \<rparr>"

definition k_err :: PIDController where
  "k_err = (PIDController_default 1 0.5 0 0 0)\<lparr> pid_status := PID_ERROR \<rparr>"

text \<open>
  The initialized default coordinator after one cycle at time \<open>100\<close> with a dog whose box
  has the centre \<open>(420, 240)\<close>.
\<close>

definition tracking_coordinator :: TrackingCoordinator where
  "tracking_coordinator =
     update_tracking_control driver_ok 100 100 scanning_coordinator [dog (370, 190, 470, 290)]"

text \<open>
  Whether a call of \<^verbatim>\<open>update\<close> whose \<open>current_time\<close> is \<open>t\<close> gets past both early returns
  (the \<^verbatim>\<open>ERROR\<close> guard and the sample-time check) and computes a new output.
\<close>

definition recomputes :: "PIDController \<Rightarrow> real \<Rightarrow> bool" where
  "recomputes c t =
     (pid_status c \<noteq> PID_ERROR
      \<and> \<not> (t - prev_time (pid_state c) < sample_time c \<and> total_updates c > 0))"

text \<open>
  A default controller with \<open>kP = 1\<close> after one update with error \<open>50\<close> at time \<open>1\<close>, and the
  same controller after \<^verbatim>\<open>set_output_limits(-10, 10)\<close>.
\<close>

definition pid_after_first :: PIDController where
  "pid_after_first = snd (update 1 1 1 (PIDController_default 1 0 0 0 0) 50)"

definition pid_narrowed :: PIDController where
  "pid_narrowed = snd (set_output_limits pid_after_first (-10) 10)"

text \<open>
  A default controller with \<open>kI = 0.5\<close> after one update with error \<open>10\<close> at time \<open>4\<close>, and
  the same controller after \<^verbatim>\<open>set_integral_limits(-5, 5)\<close>.
\<close>

definition pid_wound :: PIDController where
  "pid_wound = snd (update 4 4 4 (PIDController_default 1 0.5 0 0 0) 10)"

definition pid_tightened :: PIDController where
  "pid_tightened = snd (set_integral_limits pid_wound (-5) 5)"



text \<open>
  The initialized default coordinator after one cycle (time \<open>100\<close>) with a dog whose box
  has the centre \<open>(420, 240)\<close> during which the pan assignment of the driver raises, and
  after a second such cycle (time \<open>101\<close>) in which the driver would work.
\<close>

definition failed_apply_cycle :: TrackingCoordinator where
  "failed_apply_cycle =
     update_tracking_control driver_pan_fails 100 100 scanning_coordinator
       [dog (370, 190, 470, 290)]"

definition cycle_after_failure :: TrackingCoordinator where
  "cycle_after_failure =
     update_tracking_control driver_ok 101 101 failed_apply_cycle [dog (370, 190, 470, 290)]"

text \<open>The initialized default coordinator with the cached pan angle \<open>89\<close>.\<close>

definition coordinator_at_edge :: TrackingCoordinator where
  "coordinator_at_edge =
     scanning_coordinator\<lparr> status := (status scanning_coordinator)\<lparr> pan_angle := 89 \<rparr> \<rparr>"

chapter \<open>Properties\<close>

section \<open>Actuator guard\<close>

lemmas servo_defs = set_angles_def set_servo_angles_def is_ready_def is_angle_safe_def
  is_pan_angle_safe_def is_tilt_angle_safe_def get_current_angles_def

lemma ready_servo_eq:
  "ready_servo = \<lparr> pan_min = -90, pan_max = 90, tilt_min = -45, tilt_max = 45,
       pan_servo = Some 90, tilt_servo = Some 90,
       current_pan_angle = 0, current_tilt_angle = 0,
       servo_status = Servo_READY, move_speed = 0.5, settle_time = 0.1 \<rparr>"
  by (simp add: ready_servo_def initialize_def ServoController_init_def set_servo_angles_def
        driver_ok_def pan_angle_to_servo_def tilt_angle_to_servo_def Let_def)

text \<open>
  Claim C1, as the code has it. For every configured pan and tilt range and every requested
  pair: if pan or tilt is outside its range, \<^verbatim>\<open>set_angles\<close> returns \<^verbatim>\<open>False\<close> and leaves the
  whole controller, the recorded angles included, as it was. If both are within range, the
  controller is ready and neither driver assignment raises, it returns \<^verbatim>\<open>True\<close> and
  the recorded angles are exactly the requested pair. Whenever it returns \<^verbatim>\<open>False\<close> (out of
  range, not ready, or a driver assignment that raised) the recorded angles are unchanged.
  With the ranges \<open>[-90, 90]\<close> and \<open>[-45, 45]\<close>, \<^verbatim>\<open>set_angles(100, 0)\<close> returns \<^verbatim>\<open>False\<close> and
  changes nothing.
\<close>

theorem set_angles_guard:
  "(pan < pan_min c \<or> pan_max c < pan \<or> tilt < tilt_min c \<or> tilt_max c < tilt
      \<longrightarrow> set_angles drv c pan tilt = (False, c))
   \<and> (pan_min c \<le> pan \<and> pan \<le> pan_max c \<and> tilt_min c \<le> tilt \<and> tilt \<le> tilt_max c
        \<and> is_ready c \<and> pan_write_ok drv \<and> tilt_write_ok drv
      \<longrightarrow> fst (set_angles drv c pan tilt) = True
          \<and> current_pan_angle (snd (set_angles drv c pan tilt)) = pan
          \<and> current_tilt_angle (snd (set_angles drv c pan tilt)) = tilt)
   \<and> (fst (set_angles drv c pan tilt) = False
      \<longrightarrow> get_current_angles (snd (set_angles drv c pan tilt)) = get_current_angles c)
   \<and> (pan_min c = -90 \<and> pan_max c = 90 \<and> tilt_min c = -45 \<and> tilt_max c = 45
      \<longrightarrow> set_angles drv c 100 0 = (False, c))"
  by (auto simp: servo_defs Let_def split: prod.splits option.splits if_splits)

text \<open>
  The theorem at the default controller: a rejected request, an accepted one, and a
  request whose tilt is out of range.
\<close>

theorem set_angles_guard_witness:
  "set_angles driver_ok ready_servo 100 0 = (False, ready_servo)
   \<and> fst (set_angles driver_ok ready_servo 10 5) = True
   \<and> current_pan_angle (snd (set_angles driver_ok ready_servo 10 5)) = 10
   \<and> current_tilt_angle (snd (set_angles driver_ok ready_servo 10 5)) = 5
   \<and> get_current_angles (snd (set_angles driver_ok ready_servo 10 (-50)))
       = get_current_angles ready_servo"
  using set_angles_guard [of 100 ready_servo 0 driver_ok]
        set_angles_guard [of 10 ready_servo 5 driver_ok]
        set_angles_guard [of 10 ready_servo "-50" driver_ok]
  by (simp add: ready_servo_eq is_ready_def driver_ok_def)

text \<open>
  Claim C1 as stated fails where the driver raises: the controller is ready, the pair
  \<open>(10, 5)\<close> is within range, and \<^verbatim>\<open>set_angles\<close> returns \<^verbatim>\<open>False\<close> with the recorded angles
  still \<open>(0, 0)\<close>.
\<close>

theorem set_angles_driver_failure_counterexample:
  "is_ready ready_servo \<and> is_angle_safe ready_servo 10 5
   \<and> fst (set_angles driver_pan_fails ready_servo 10 5) = False
   \<and> get_current_angles (snd (set_angles driver_pan_fails ready_servo 10 5)) = (0, 0)"
  by (simp add: ready_servo_eq servo_defs driver_pan_fails_def)

section \<open>Configuration errors and the error status\<close>

text \<open>
  Claim C9. For every pair with \<open>min \<ge> max\<close>, \<^verbatim>\<open>set_output_limits\<close> and
  \<^verbatim>\<open>set_integral_limits\<close> raise \<^verbatim>\<open>PIDError\<close> and leave every field of the controller as it
  was; for every pair with \<open>min < max\<close> the call raises nothing, the stored limits become
  exactly \<open>(min, max)\<close> and no other field changes.
\<close>

theorem limit_setters_atomic:
  "(max_v \<le> min_v \<longrightarrow>
       set_output_limits c min_v max_v = (Some PIDError, c)
     \<and> set_integral_limits c min_v max_v = (Some PIDError, c))
   \<and> (min_v < max_v \<longrightarrow>
       set_output_limits c min_v max_v = (None, c\<lparr> output_limits := (min_v, max_v) \<rparr>)
     \<and> output_limits (snd (set_output_limits c min_v max_v)) = (min_v, max_v)
     \<and> set_integral_limits c min_v max_v = (None, c\<lparr> integral_limits := (min_v, max_v) \<rparr>)
     \<and> integral_limits (snd (set_integral_limits c min_v max_v)) = (min_v, max_v))"
  by (simp add: set_output_limits_def set_integral_limits_def)

text \<open>
  The theorem at the pairs of the repository's own test (\<open>(10, 5)\<close> and \<open>(5, 2)\<close>), at an
  equal pair and at two valid pairs.
\<close>

theorem limit_setters_atomic_witness:
  "set_output_limits (PIDController_default 1 0 0 0 0) 10 5
     = (Some PIDError, PIDController_default 1 0 0 0 0)
   \<and> set_integral_limits (PIDController_default 1 0 0 0 0) 5 2
     = (Some PIDError, PIDController_default 1 0 0 0 0)
   \<and> set_integral_limits (PIDController_default 1 0 0 0 0) 5 5
     = (Some PIDError, PIDController_default 1 0 0 0 0)
   \<and> output_limits (snd (set_output_limits (PIDController_default 1 0 0 0 0) (-10) 10)) = (-10, 10)
   \<and> integral_limits (snd (set_integral_limits (PIDController_default 1 0 0 0 0) (-5) 5)) = (-5, 5)"
  using limit_setters_atomic [of 5 10 "PIDController_default 1 0 0 0 0"]
        limit_setters_atomic [of 2 5 "PIDController_default 1 0 0 0 0"]
        limit_setters_atomic [of 5 5 "PIDController_default 1 0 0 0 0"]
        limit_setters_atomic [of 10 "-10" "PIDController_default 1 0 0 0 0"]
        limit_setters_atomic [of 5 "-5" "PIDController_default 1 0 0 0 0"]
  by simp

text \<open>
  Claim C10. Once the status of a controller is \<^verbatim>\<open>ERROR\<close>, \<^verbatim>\<open>calculate_correction\<close> returns
  \<open>(0, 0)\<close> and \<^verbatim>\<open>update\<close> returns \<open>0\<close>, each leaving the whole controller as it was; \<^verbatim>\<open>reset\<close>
  zeroes the accumulators and clears the history but leaves the status \<^verbatim>\<open>ERROR\<close>. A
  controller whose status is not \<^verbatim>\<open>ERROR\<close> is \<^verbatim>\<open>READY\<close> after \<^verbatim>\<open>reset\<close>.
\<close>

theorem error_status_absorbing:
  "(simple_p_status c = SimpleP_ERROR \<longrightarrow>
        calculate_correction t c center = ((0, 0), c)
      \<and> simple_p_reset now c =
          c\<lparr> simple_p_state := \<lparr> last_error = (0, 0), last_output = (0, 0),
                                  last_update_time = now, total_corrections = 0 \<rparr>,
             simple_p_history := [] \<rparr>
      \<and> simple_p_status (simple_p_reset now c) = SimpleP_ERROR)
   \<and> (simple_p_status c \<noteq> SimpleP_ERROR \<longrightarrow>
        simple_p_status (simple_p_reset now c) = SimpleP_READY)
   \<and> (pid_status k = PID_ERROR \<longrightarrow>
        update t0 t1 t2 k e = (0, k)
      \<and> pid_reset now k =
          k\<lparr> pid_state := \<lparr> proportional = 0, integral = 0, derivative = 0, prev_error = 0,
                              prev_time = now, output = 0, is_saturated = False \<rparr>,
             saturation_count := 0, pid_history := [] \<rparr>
      \<and> pid_status (pid_reset now k) = PID_ERROR)
   \<and> (pid_status k \<noteq> PID_ERROR \<longrightarrow> pid_status (pid_reset now k) = PID_READY)"
  by (simp add: calculate_correction_def simple_p_reset_def update_def pid_reset_def Let_def)

text \<open>The theorem at two controllers in the error status and at two fresh ones.\<close>

theorem error_status_absorbing_witness:
  "calculate_correction 1 p_err (420, 240) = ((0, 0), p_err)
   \<and> simple_p_status (simple_p_reset 2 p_err) = SimpleP_ERROR
   \<and> simple_p_status (simple_p_reset 2 (SimpleProportionalController_default 640 480 0 0))
       = SimpleP_READY
   \<and> update 1 1 1 k_err 10 = (0, k_err)
   \<and> pid_status (pid_reset 2 k_err) = PID_ERROR
   \<and> integral (pid_state (pid_reset 2 k_err)) = 0
   \<and> pid_status (pid_reset 2 (PIDController_default 1 0.5 0 0 0)) = PID_READY"
  using error_status_absorbing [of p_err 1 "(420, 240)" 2 k_err 1 1 1 10]
        error_status_absorbing
          [of "SimpleProportionalController_default 640 480 0 0" 1 "(420, 240)" 2
              "PIDController_default 1 0.5 0 0 0" 1 1 1 10]
  by (simp add: p_err_def k_err_def SimpleProportionalController_default_def
        SimpleProportionalController_init_def PIDController_default_def PIDController_init_def)

section \<open>Proportional control law\<close>

lemma default_simple_p_eq:
  "SimpleProportionalController_default 640 480 t_start t_ready =
     \<lparr> image_width = 640, image_height = 480, image_center = (320, 240),
       pan_gain = 0.0156, tilt_gain = 0.0208, max_correction = 15, deadband = 5,
       simple_p_state = \<lparr> last_error = (0, 0), last_output = (0, 0),
                          last_update_time = t_ready, total_corrections = 0 \<rparr>,
       simple_p_status = SimpleP_READY,
       simple_p_history = [],
       simple_p_start_time = t_start \<rparr>"
  by (simp add: SimpleProportionalController_default_def SimpleProportionalController_init_def)

text \<open>
  Claim C2. For every detection centre \<open>(x, y)\<close> and every controller whose status is not
  \<^verbatim>\<open>ERROR\<close>, \<^verbatim>\<open>calculate_correction\<close> takes \<open>ex = x - cx\<close> and \<open>ey = y - cy\<close> against the image
  centre \<open>(cx, cy)\<close>, replaces \<open>ex\<close> by \<open>0\<close> when \<open>|ex| < deadband\<close> and, independently, \<open>ey\<close> by
  \<open>0\<close> when \<open>|ey| < deadband\<close>, and returns the pan product clipped to
  \<open>[-max_correction, max_correction]\<close> together with the clipped \<^emph>\<open>negated\<close> tilt product.
  With a 640 by 480 image (centre \<open>(320, 240)\<close>), gains \<open>0.0156\<close> and \<open>0.0208\<close>, deadband \<open>5\<close> and
  maximal correction \<open>15\<close>, the centre \<open>(420, 240)\<close> gives \<open>(1.56, 0)\<close> and the centre
  \<open>(320, 320)\<close> gives \<open>(0, -1.664)\<close>. Whenever both errors are inside the deadband (and the
  maximal correction is not negative) the result is \<open>(0, 0)\<close>, in every status.
\<close>

theorem calculate_correction_law:
  "(simple_p_status c \<noteq> SimpleP_ERROR \<longrightarrow>
      fst (calculate_correction t c (x, y)) =
        (let ex = x - real_of_int (fst (image_center c));
             ey = y - real_of_int (snd (image_center c));
             ex' = (if \<bar>ex\<bar> < deadband c then 0 else ex);
             ey' = (if \<bar>ey\<bar> < deadband c then 0 else ey)
         in (min (max_correction c) (max (ex' * pan_gain c) (- max_correction c)),
             min (max_correction c) (max (- ey' * tilt_gain c) (- max_correction c)))))
   \<and> (simple_p_status c \<noteq> SimpleP_ERROR \<and> image_center c = (320, 240)
        \<and> pan_gain c = 0.0156 \<and> tilt_gain c = 0.0208 \<and> deadband c = 5 \<and> max_correction c = 15
      \<longrightarrow> fst (calculate_correction t c (420, 240)) = (1.56, 0)
          \<and> fst (calculate_correction t c (320, 320)) = (0, -1.664))
   \<and> (0 \<le> max_correction c
        \<and> \<bar>x - real_of_int (fst (image_center c))\<bar> < deadband c
        \<and> \<bar>y - real_of_int (snd (image_center c))\<bar> < deadband c
      \<longrightarrow> fst (calculate_correction t c (x, y)) = (0, 0))
   \<and> image_center (SimpleProportionalController_init 640 480 pg tg mc db t_start t_ready)
       = (320, 240)"
proof -
  have general: "simple_p_status c \<noteq> SimpleP_ERROR \<Longrightarrow>
      fst (calculate_correction t c (x, y)) =
        (let ex = x - real_of_int (fst (image_center c));
             ey = y - real_of_int (snd (image_center c));
             ex' = (if \<bar>ex\<bar> < deadband c then 0 else ex);
             ey' = (if \<bar>ey\<bar> < deadband c then 0 else ey)
         in (min (max_correction c) (max (ex' * pan_gain c) (- max_correction c)),
             min (max_correction c) (max (- ey' * tilt_gain c) (- max_correction c))))"
    for x y
    by (simp add: calculate_correction_def clip_def Let_def)
  have examples: "fst (calculate_correction t c (420, 240)) = (1.56, 0)
          \<and> fst (calculate_correction t c (320, 320)) = (0, -1.664)"
    if "simple_p_status c \<noteq> SimpleP_ERROR" "image_center c = (320, 240)"
       "pan_gain c = 0.0156" "tilt_gain c = 0.0208" "deadband c = 5" "max_correction c = 15"
    using that by (simp add: general)
  have quiet: "fst (calculate_correction t c (x, y)) = (0, 0)"
    if "0 \<le> max_correction c"
       "\<bar>x - real_of_int (fst (image_center c))\<bar> < deadband c"
       "\<bar>y - real_of_int (snd (image_center c))\<bar> < deadband c"
    using that by (simp add: calculate_correction_def clip_def Let_def)
  have centre: "image_center (SimpleProportionalController_init 640 480 pg tg mc db t_start t_ready)
       = (320, 240)"
    by (simp add: SimpleProportionalController_init_def)
  from general examples quiet centre show ?thesis by blast
qed

text \<open>
  The theorem at the controller the constructor builds by default: the two centres of the
  scenario and a centre inside the deadband.
\<close>

theorem calculate_correction_law_witness:
  "fst (calculate_correction 1 (SimpleProportionalController_default 640 480 0 0) (420, 240))
     = (1.56, 0)
   \<and> fst (calculate_correction 1 (SimpleProportionalController_default 640 480 0 0) (320, 320))
     = (0, -1.664)
   \<and> fst (calculate_correction 1 (SimpleProportionalController_default 640 480 0 0) (322, 237))
     = (0, 0)"
  using calculate_correction_law
          [of "SimpleProportionalController_default 640 480 0 0" 1 322 237]
  by (simp add: default_simple_p_eq)

section \<open>Mode state machine\<close>








lemma scanning_coordinator_eq:
  "scanning_coordinator =
     \<lparr> coordinator_image_width = 640, coordinator_image_height = 480,
       detection_interval = 0.5, lost_target_timeout = 5,
       status = \<lparr> mode = SCANNING, target_detected = False, target_class = [],
                  target_confidence = 0, pan_angle = 0, tilt_angle = 0,
                  correction_applied = (0, 0), last_detection_time = None,
                  total_detections = 0, tracking_duration = 0 \<rparr>,
       is_running = False, system_start_time = Some 0,
       servo_controller = Some ready_servo,
       simple_p_controller = Some (SimpleProportionalController_default 640 480 0 0) \<rparr>"
proof -
  have init: "initialize True driver_ok (ServoController_init (-90, 90) (-45, 45))
                = (True, ready_servo)"
    by (simp add: ready_servo_def initialize_def set_servo_angles_def driver_ok_def Let_def)
  have centre: "move_to_center driver_ok ready_servo = (True, ready_servo)"
    by (simp add: move_to_center_def ready_servo_eq servo_defs driver_ok_def
          pan_angle_to_servo_def tilt_angle_to_servo_def)
  show ?thesis
    by (simp add: scanning_coordinator_def initialize_system_def env_ok_def init centre
          TrackingCoordinator_default_def TrackingCoordinator_init_def SystemStatus_init_def)
qed

lemma tracking_coordinator_status:
  "mode (status tracking_coordinator) = TRACKING
   \<and> last_detection_time (status tracking_coordinator) = Some 100
   \<and> lost_target_timeout tracking_coordinator = 5
   \<and> pan_angle (status tracking_coordinator) = 1.56
   \<and> tilt_angle (status tracking_coordinator) = 0"
  by (simp add: tracking_coordinator_def update_tracking_control_def scanning_coordinator_eq
        dog_def default_simple_p_eq calculate_correction_def clip_def ready_servo_eq servo_defs
        driver_ok_def Let_def)


section \<open>PID control law\<close>

lemma clip_in_range: "a_min \<le> a_max \<Longrightarrow> a_min \<le> clip a a_min a_max \<and> clip a a_min a_max \<le> a_max"
  by (simp add: clip_def)

lemma clip_abs_bound: "0 \<le> m \<Longrightarrow> \<bar>clip a (- m) m\<bar> \<le> m"
  unfolding clip_def by (auto simp: abs_le_iff min_def max_def)

lemma update_error: "pid_status k = PID_ERROR \<Longrightarrow> update t0 t1 t2 k e = (0, k)"
  by (simp add: update_def)

lemma update_rate_limited:
  "pid_status k \<noteq> PID_ERROR \<Longrightarrow> \<not> recomputes k t1 \<Longrightarrow>
     update t0 t1 t2 k e = (output (pid_state k), k\<lparr> pid_status := PID_RUNNING \<rparr>)"
  by (simp add: update_def recomputes_def Let_def)

lemma update_recomputed_state:
  "recomputes k t1 \<Longrightarrow>
     pid_state (snd (update t0 t1 t2 k e)) =
       (let dt = t1 - prev_time (pid_state k);
            integ = (if dt > 0
                     then clip (integral (pid_state k) + e * dt)
                            (fst (integral_limits k)) (snd (integral_limits k))
                     else integral (pid_state k));
            d = (if dt > 0 \<and> total_updates k > 0
                 then kD k * ((e - prev_error (pid_state k)) / dt) else 0);
            raw = kP k * e + kI k * integ + d
        in \<lparr> proportional = kP k * e, integral = integ, derivative = d,
             prev_error = e, prev_time = t1,
             output = clip raw (fst (output_limits k)) (snd (output_limits k)),
             is_saturated = (\<bar>raw\<bar> > max \<bar>fst (output_limits k)\<bar> \<bar>snd (output_limits k)\<bar>) \<rparr>)"
  by (simp add: update_def recomputes_def Let_def)

lemma update_recomputed_result:
  "recomputes k t1 \<Longrightarrow>
     fst (update t0 t1 t2 k e) = output (pid_state (snd (update t0 t1 t2 k e)))"
  by (simp add: update_def recomputes_def Let_def)

lemma update_limits_kept:
  "output_limits (snd (update t0 t1 t2 k e)) = output_limits k
   \<and> integral_limits (snd (update t0 t1 t2 k e)) = integral_limits k
   \<and> kI (snd (update t0 t1 t2 k e)) = kI k"
  by (simp add: update_def Let_def)

lemma update_integral_cases:
  "integral (pid_state (snd (update t0 t1 t2 k e))) =
     (if recomputes k t1 \<and> t1 - prev_time (pid_state k) > 0
      then clip (integral (pid_state k) + e * (t1 - prev_time (pid_state k)))
             (fst (integral_limits k)) (snd (integral_limits k))
      else integral (pid_state k))"
proof (cases "pid_status k = PID_ERROR")
  case True
  then show ?thesis by (simp add: update_error recomputes_def)
next
  case False
  show ?thesis
  proof (cases "recomputes k t1")
    case True
    then show ?thesis by (simp add: update_recomputed_state Let_def)
  next
    case no: False
    with False show ?thesis by (simp add: update_rate_limited)
  qed
qed

lemma pid_after_first_facts:
  "pid_status pid_after_first = PID_READY
   \<and> output (pid_state pid_after_first) = 50
   \<and> prev_time (pid_state pid_after_first) = 1
   \<and> sample_time pid_after_first = 0.01
   \<and> total_updates pid_after_first = 1
   \<and> output_limits pid_after_first = (-90, 90)"
  by (simp add: pid_after_first_def update_def PIDController_default_def PIDController_init_def
        clip_def Let_def)

lemma pid_narrowed_facts:
  "pid_status pid_narrowed = PID_READY
   \<and> output (pid_state pid_narrowed) = 50
   \<and> prev_time (pid_state pid_narrowed) = 1
   \<and> sample_time pid_narrowed = 0.01
   \<and> total_updates pid_narrowed = 1
   \<and> output_limits pid_narrowed = (-10, 10)"
  by (simp add: pid_narrowed_def set_output_limits_def pid_after_first_facts)

text \<open>
  Claim C4, as the code has it. For every detection centre and every state, with a
  maximal correction that is not negative, both components of the proportional
  controller's correction lie within \<open>[-max_correction, max_correction]\<close>. Every call of the
  PID controller's \<^verbatim>\<open>update\<close> that computes a new output, with \<open>output_min \<le> output_max\<close>,
  returns (and stores) a value within \<open>[output_min, output_max]\<close>. A rate-limited call
  returns the stored previous output and a call in the \<^verbatim>\<open>ERROR\<close> status returns \<open>0\<close>; so
  whenever the stored output and \<open>0\<close> lie within the limits before a call, the returned
  and the stored output lie within them after it.
\<close>

theorem corrections_bounded:
  "(0 \<le> max_correction c \<longrightarrow>
       \<bar>fst (fst (calculate_correction t c center))\<bar> \<le> max_correction c
     \<and> \<bar>snd (fst (calculate_correction t c center))\<bar> \<le> max_correction c)
   \<and> (recomputes k t1 \<and> fst (output_limits k) \<le> snd (output_limits k) \<longrightarrow>
       fst (output_limits k) \<le> fst (update t0 t1 t2 k e)
     \<and> fst (update t0 t1 t2 k e) \<le> snd (output_limits k)
     \<and> output (pid_state (snd (update t0 t1 t2 k e))) = fst (update t0 t1 t2 k e))
   \<and> (pid_status k \<noteq> PID_ERROR \<and> \<not> recomputes k t1 \<longrightarrow>
       fst (update t0 t1 t2 k e) = output (pid_state k))
   \<and> (pid_status k = PID_ERROR \<longrightarrow> fst (update t0 t1 t2 k e) = 0)
   \<and> (fst (output_limits k) \<le> output (pid_state k)
        \<and> output (pid_state k) \<le> snd (output_limits k)
        \<and> fst (output_limits k) \<le> 0 \<and> 0 \<le> snd (output_limits k) \<longrightarrow>
       fst (output_limits k) \<le> fst (update t0 t1 t2 k e)
     \<and> fst (update t0 t1 t2 k e) \<le> snd (output_limits k)
     \<and> fst (output_limits k) \<le> output (pid_state (snd (update t0 t1 t2 k e)))
     \<and> output (pid_state (snd (update t0 t1 t2 k e))) \<le> snd (output_limits k))"
proof -
  have p_law: "\<bar>fst (fst (calculate_correction t c center))\<bar> \<le> max_correction c
     \<and> \<bar>snd (fst (calculate_correction t c center))\<bar> \<le> max_correction c"
    if "0 \<le> max_correction c"
    using that by (simp add: calculate_correction_def clip_abs_bound Let_def)
  have fresh: "fst (output_limits k) \<le> fst (update t0 t1 t2 k e)
     \<and> fst (update t0 t1 t2 k e) \<le> snd (output_limits k)
     \<and> output (pid_state (snd (update t0 t1 t2 k e))) = fst (update t0 t1 t2 k e)"
    if "recomputes k t1" "fst (output_limits k) \<le> snd (output_limits k)"
    using that
    by (simp add: update_recomputed_result update_recomputed_state clip_in_range Let_def)
  have stale: "fst (update t0 t1 t2 k e) = output (pid_state k)"
    if "pid_status k \<noteq> PID_ERROR" "\<not> recomputes k t1"
    using that by (simp add: update_rate_limited)
  have err: "fst (update t0 t1 t2 k e) = 0" if "pid_status k = PID_ERROR"
    using that by (simp add: update_error)
  have inv: "fst (output_limits k) \<le> fst (update t0 t1 t2 k e)
     \<and> fst (update t0 t1 t2 k e) \<le> snd (output_limits k)
     \<and> fst (output_limits k) \<le> output (pid_state (snd (update t0 t1 t2 k e)))
     \<and> output (pid_state (snd (update t0 t1 t2 k e))) \<le> snd (output_limits k)"
    if "fst (output_limits k) \<le> output (pid_state k)"
       "output (pid_state k) \<le> snd (output_limits k)"
       "fst (output_limits k) \<le> 0" "0 \<le> snd (output_limits k)"
  proof (cases "pid_status k = PID_ERROR")
    case True
    with that show ?thesis by (simp add: update_error)
  next
    case False
    show ?thesis
    proof (cases "recomputes k t1")
      case True
      from that have "fst (output_limits k) \<le> snd (output_limits k)" by simp
      with True fresh show ?thesis by simp
    next
      case no: False
      with False that show ?thesis by (simp add: update_rate_limited)
    qed
  qed
  from p_law fresh stale err inv show ?thesis by blast
qed

text \<open>
  The theorem at the default proportional controller with a far-away centre, at a first
  update of a default PID controller, at a rate-limited second update, and at a
  controller in the error status.
\<close>

theorem corrections_bounded_witness:
  "\<bar>fst (fst (calculate_correction 1 (SimpleProportionalController_default 640 480 0 0)
               (5000, -5000)))\<bar> \<le> 15
   \<and> \<bar>snd (fst (calculate_correction 1 (SimpleProportionalController_default 640 480 0 0)
                 (5000, -5000)))\<bar> \<le> 15
   \<and> -90 \<le> fst (update 1 1 1 (PIDController_default 1 0 0 0 0) 500)
   \<and> fst (update 1 1 1 (PIDController_default 1 0 0 0 0) 500) \<le> 90
   \<and> fst (update 1.005 1.005 1.005 pid_after_first 7) = 50
   \<and> fst (update 1 1 1 k_err 7) = 0"
proof -
  note first = corrections_bounded
      [where c = "SimpleProportionalController_default 640 480 0 0" and t = 1
         and center = "(5000, -5000)" and k = "PIDController_default 1 0 0 0 0"
         and ?t0.0 = 1 and ?t1.0 = 1 and ?t2.0 = 1 and e = 500]
  note second = corrections_bounded
      [where k = pid_after_first and ?t0.0 = "1.005" and ?t1.0 = "1.005" and ?t2.0 = "1.005"
         and e = 7]
  note third = corrections_bounded
      [where k = k_err and ?t0.0 = 1 and ?t1.0 = 1 and ?t2.0 = 1 and e = 7]
  have a: "\<bar>fst (fst (calculate_correction 1 (SimpleProportionalController_default 640 480 0 0)
               (5000, -5000)))\<bar> \<le> 15
   \<and> \<bar>snd (fst (calculate_correction 1 (SimpleProportionalController_default 640 480 0 0)
                 (5000, -5000)))\<bar> \<le> 15"
    using first by (simp add: default_simple_p_eq)
  have b: "-90 \<le> fst (update 1 1 1 (PIDController_default 1 0 0 0 0) 500)
   \<and> fst (update 1 1 1 (PIDController_default 1 0 0 0 0) 500) \<le> 90"
    using first
    by (simp add: recomputes_def PIDController_default_def PIDController_init_def)
  have c: "fst (update 1.005 1.005 1.005 pid_after_first 7) = 50"
    using second by (simp add: recomputes_def pid_after_first_facts)
  have d: "fst (update 1 1 1 k_err 7) = 0"
    using third by (simp add: k_err_def)
  from a b c d show ?thesis by simp
qed

text \<open>
  Claim C4 as stated fails in a reachable state: a default controller (\<open>kP = 1\<close>, limits
  \<open>(-90, 90)\<close>) is updated once with error \<open>50\<close>, \<^verbatim>\<open>set_output_limits(-10, 10)\<close> succeeds, and an
  update five milliseconds later is rate-limited and returns the stored \<open>50\<close>, above the
  configured maximum \<open>10\<close>.
\<close>

theorem update_stale_output_counterexample:
  "fst (update 1 1 1 (PIDController_default 1 0 0 0 0) 50) = 50
   \<and> fst (set_output_limits pid_after_first (-10) 10) = None
   \<and> output_limits pid_narrowed = (-10, 10)
   \<and> fst (update 1.005 1.005 1.005 pid_narrowed 50) = 50
   \<and> snd (output_limits pid_narrowed) < fst (update 1.005 1.005 1.005 pid_narrowed 50)"
proof -
  have first: "fst (update 1 1 1 (PIDController_default 1 0 0 0 0) 50) = 50"
    by (simp add: update_def PIDController_default_def PIDController_init_def clip_def Let_def)
  have setter: "fst (set_output_limits pid_after_first (-10) 10) = None"
    by (simp add: set_output_limits_def)
  have second: "fst (update 1.005 1.005 1.005 pid_narrowed 50) = 50"
    by (simp add: update_def pid_narrowed_facts Let_def)
  from first setter second show ?thesis by (simp add: pid_narrowed_facts)
qed

lemma update_integral_preserved:
  "fst (integral_limits k) \<le> integral (pid_state k) \<Longrightarrow>
   integral (pid_state k) \<le> snd (integral_limits k) \<Longrightarrow>
     fst (integral_limits k) \<le> integral (pid_state (snd (update t0 t1 t2 k e)))
     \<and> integral (pid_state (snd (update t0 t1 t2 k e))) \<le> snd (integral_limits k)"
proof -
  assume lo: "fst (integral_limits k) \<le> integral (pid_state k)"
     and hi: "integral (pid_state k) \<le> snd (integral_limits k)"
  then have "fst (integral_limits k) \<le> snd (integral_limits k)" by simp
  with lo hi show ?thesis
    by (simp add: update_integral_cases clip_in_range)
qed

lemma run_updates_integral:
  "fst (integral_limits k) \<le> integral (pid_state k) \<Longrightarrow>
   integral (pid_state k) \<le> snd (integral_limits k) \<Longrightarrow>
     fst (integral_limits k) \<le> integral (pid_state (run_updates k calls))
     \<and> integral (pid_state (run_updates k calls)) \<le> snd (integral_limits k)"
proof (induction calls arbitrary: k)
  case Nil
  then show ?case by simp
next
  case (Cons call calls)
  obtain t0 t1 t2 e where call: "call = (t0, t1, t2, e)"
    by (cases call) auto
  let ?k = "snd (update t0 t1 t2 k e)"
  have limits: "integral_limits ?k = integral_limits k"
    by (simp add: update_limits_kept)
  from Cons.prems have step:
    "fst (integral_limits ?k) \<le> integral (pid_state ?k)
     \<and> integral (pid_state ?k) \<le> snd (integral_limits ?k)"
    unfolding limits by (rule update_integral_preserved)
  from Cons.IH [of ?k] step show ?case
    by (simp add: call limits)
qed

lemma update_history_i_term:
  "recomputes k t1 \<Longrightarrow>
     h_i_term (last (pid_history (snd (update t0 t1 t2 k e))))
       = kI k * integral (pid_state (snd (update t0 t1 t2 k e)))"
  by (cases "pid_history k") (auto simp: update_def recomputes_def Let_def)

lemma pid_wound_facts:
  "pid_status pid_wound = PID_READY
   \<and> integral (pid_state pid_wound) = 40
   \<and> prev_time (pid_state pid_wound) = 4
   \<and> sample_time pid_wound = 0.01
   \<and> total_updates pid_wound = 1
   \<and> integral_limits pid_wound = (-50, 50)"
  by (simp add: pid_wound_def update_def PIDController_default_def PIDController_init_def
        clip_def Let_def)

lemma pid_tightened_facts:
  "pid_status pid_tightened = PID_READY
   \<and> integral (pid_state pid_tightened) = 40
   \<and> prev_time (pid_state pid_tightened) = 4
   \<and> sample_time pid_tightened = 0.01
   \<and> total_updates pid_tightened = 1
   \<and> integral_limits pid_tightened = (-5, 5)"
  by (simp add: pid_tightened_def set_integral_limits_def pid_wound_facts)

text \<open>
  Claim C5, as the code has it. The bound on the integral is preserved by every call of
  \<^verbatim>\<open>update\<close>: if the stored integral lies within \<open>[integral_min, integral_max]\<close> before the
  call, it does after it, for every error, clock and status. A call that computes a new
  output with a positive time step sets the integral to
  \<open>clip (integral + error * dt) integral_min integral_max\<close> and multiplies this clamped value
  by \<open>kI\<close>; with \<open>integral_min \<le> integral_max\<close> the new integral lies within the limits. Every
  other call (error status, rate-limited, time step not positive) leaves the integral as
  it was. Hence after an arbitrarily long sequence of updates the integral lies within
  the limits if it did at the start, as it does for a new controller whose limits
  contain \<open>0\<close>.
\<close>

theorem integral_anti_windup:
  "(fst (integral_limits k) \<le> integral (pid_state k)
      \<and> integral (pid_state k) \<le> snd (integral_limits k) \<longrightarrow>
        fst (integral_limits k) \<le> integral (pid_state (snd (update t0 t1 t2 k e)))
      \<and> integral (pid_state (snd (update t0 t1 t2 k e))) \<le> snd (integral_limits k))
   \<and> (recomputes k t1 \<and> t1 - prev_time (pid_state k) > 0 \<longrightarrow>
        integral (pid_state (snd (update t0 t1 t2 k e)))
          = clip (integral (pid_state k) + e * (t1 - prev_time (pid_state k)))
              (fst (integral_limits k)) (snd (integral_limits k))
      \<and> h_i_term (last (pid_history (snd (update t0 t1 t2 k e))))
          = kI k * integral (pid_state (snd (update t0 t1 t2 k e))))
   \<and> (recomputes k t1 \<and> t1 - prev_time (pid_state k) > 0
        \<and> fst (integral_limits k) \<le> snd (integral_limits k) \<longrightarrow>
        fst (integral_limits k) \<le> integral (pid_state (snd (update t0 t1 t2 k e)))
      \<and> integral (pid_state (snd (update t0 t1 t2 k e))) \<le> snd (integral_limits k))
   \<and> (\<not> (recomputes k t1 \<and> t1 - prev_time (pid_state k) > 0) \<longrightarrow>
        integral (pid_state (snd (update t0 t1 t2 k e))) = integral (pid_state k))
   \<and> (fst (integral_limits k) \<le> integral (pid_state k)
      \<and> integral (pid_state k) \<le> snd (integral_limits k) \<longrightarrow>
        fst (integral_limits k) \<le> integral (pid_state (run_updates k calls))
      \<and> integral (pid_state (run_updates k calls)) \<le> snd (integral_limits k))
   \<and> (fst int_lim \<le> 0 \<and> 0 \<le> snd int_lim \<longrightarrow>
        fst int_lim \<le> integral (pid_state (run_updates
                          (PIDController_init p i d out_lim int_lim st t_start t_ready) calls))
      \<and> integral (pid_state (run_updates
                          (PIDController_init p i d out_lim int_lim st t_start t_ready) calls))
          \<le> snd int_lim)"
proof -
  have accumulate: "integral (pid_state (snd (update t0 t1 t2 k e)))
          = clip (integral (pid_state k) + e * (t1 - prev_time (pid_state k)))
              (fst (integral_limits k)) (snd (integral_limits k))
      \<and> h_i_term (last (pid_history (snd (update t0 t1 t2 k e))))
          = kI k * integral (pid_state (snd (update t0 t1 t2 k e)))"
    if "recomputes k t1" "t1 - prev_time (pid_state k) > 0"
    using that by (simp add: update_integral_cases update_history_i_term)
  have clamped: "fst (integral_limits k) \<le> integral (pid_state (snd (update t0 t1 t2 k e)))
      \<and> integral (pid_state (snd (update t0 t1 t2 k e))) \<le> snd (integral_limits k)"
    if "recomputes k t1" "t1 - prev_time (pid_state k) > 0"
       "fst (integral_limits k) \<le> snd (integral_limits k)"
    using that by (simp add: update_integral_cases clip_in_range)
  have untouched: "integral (pid_state (snd (update t0 t1 t2 k e))) = integral (pid_state k)"
    if "\<not> (recomputes k t1 \<and> t1 - prev_time (pid_state k) > 0)"
    using that by (auto simp: update_integral_cases)
  have fresh: "fst int_lim \<le> integral (pid_state (run_updates
                          (PIDController_init p i d out_lim int_lim st t_start t_ready) calls))
      \<and> integral (pid_state (run_updates
                          (PIDController_init p i d out_lim int_lim st t_start t_ready) calls))
          \<le> snd int_lim"
    if "fst int_lim \<le> 0" "0 \<le> snd int_lim"
    using that
      run_updates_integral
        [of "PIDController_init p i d out_lim int_lim st t_start t_ready" calls]
    by (simp add: PIDController_init_def)
  from accumulate clamped untouched fresh
    update_integral_preserved [of k t0 t1 t2 e] run_updates_integral [of k calls]
  show ?thesis by blast
qed

text \<open>
  The theorem at a default controller (integral limits \<open>(-50, 50)\<close>) under seven updates
  with the constant error \<open>10\<close>, one second apart, and at single calls: one that
  accumulates up to the limit and one that is rate-limited.
\<close>

theorem integral_anti_windup_witness:
  "-50 \<le> integral (pid_state (run_updates (PIDController_default 1 0.5 0 0 0)
            [(1, 1, 1, 10), (2, 2, 2, 10), (3, 3, 3, 10), (4, 4, 4, 10),
             (5, 5, 5, 10), (6, 6, 6, 10), (7, 7, 7, 10)]))
   \<and> integral (pid_state (run_updates (PIDController_default 1 0.5 0 0 0)
            [(1, 1, 1, 10), (2, 2, 2, 10), (3, 3, 3, 10), (4, 4, 4, 10),
             (5, 5, 5, 10), (6, 6, 6, 10), (7, 7, 7, 10)])) \<le> 50
   \<and> integral (pid_state (snd (update 6 6 6 pid_wound 10))) = 50
   \<and> h_i_term (last (pid_history (snd (update 6 6 6 pid_wound 10)))) = 0.5 * 50
   \<and> integral (pid_state (snd (update 4.005 4.005 4.005 pid_wound 10))) = 40"
proof -
  note run = integral_anti_windup
      [where int_lim = "(-50, 50)" and p = 1 and i = "0.5" and d = 0 and out_lim = "(-90, 90)"
         and st = "0.01" and t_start = 0 and t_ready = 0
         and calls = "[(1, 1, 1, 10), (2, 2, 2, 10), (3, 3, 3, 10), (4, 4, 4, 10),
                      (5, 5, 5, 10), (6, 6, 6, 10), (7, 7, 7, 10)]"
         and k = pid_wound and ?t0.0 = 6 and ?t1.0 = 6 and ?t2.0 = 6 and e = 10]
  note step = integral_anti_windup
      [where k = pid_wound and ?t0.0 = 6 and ?t1.0 = 6 and ?t2.0 = 6 and e = 10
         and calls = "[]" and int_lim = "(-50, 50)" and p = 1 and i = "0.5" and d = 0
         and out_lim = "(-90, 90)" and st = "0.01" and t_start = 0 and t_ready = 0]
  note skip = integral_anti_windup
      [where k = pid_wound and ?t0.0 = "4.005" and ?t1.0 = "4.005" and ?t2.0 = "4.005"
         and e = 10 and calls = "[]" and int_lim = "(-50, 50)" and p = 1 and i = "0.5"
         and d = 0 and out_lim = "(-90, 90)" and st = "0.01" and t_start = 0 and t_ready = 0]
  have kI: "kI pid_wound = 0.5"
    by (simp add: pid_wound_def update_limits_kept PIDController_default_def
          PIDController_init_def)
  have a: "-50 \<le> integral (pid_state (run_updates (PIDController_default 1 0.5 0 0 0)
            [(1, 1, 1, 10), (2, 2, 2, 10), (3, 3, 3, 10), (4, 4, 4, 10),
             (5, 5, 5, 10), (6, 6, 6, 10), (7, 7, 7, 10)]))
   \<and> integral (pid_state (run_updates (PIDController_default 1 0.5 0 0 0)
            [(1, 1, 1, 10), (2, 2, 2, 10), (3, 3, 3, 10), (4, 4, 4, 10),
             (5, 5, 5, 10), (6, 6, 6, 10), (7, 7, 7, 10)])) \<le> 50"
    using run unfolding PIDController_default_def by simp
  have b: "integral (pid_state (snd (update 6 6 6 pid_wound 10))) = 50
   \<and> h_i_term (last (pid_history (snd (update 6 6 6 pid_wound 10)))) = 0.5 * 50"
    using step by (simp add: recomputes_def pid_wound_facts kI clip_def)
  have c: "integral (pid_state (snd (update 4.005 4.005 4.005 pid_wound 10))) = 40"
    using skip by (simp add: recomputes_def pid_wound_facts)
  from a b c show ?thesis by simp
qed

text \<open>
  Claim C5 as stated fails in a reachable state: a default controller accumulates the
  integral \<open>40\<close> (error \<open>10\<close> over four seconds), \<^verbatim>\<open>set_integral_limits(-5, 5)\<close> succeeds, and
  an update five milliseconds later is rate-limited: after the call the stored integral
  is still \<open>40\<close>, above the configured maximum \<open>5\<close>.
\<close>

theorem update_stale_integral_counterexample:
  "integral (pid_state pid_wound) = 40
   \<and> fst (set_integral_limits pid_wound (-5) 5) = None
   \<and> integral_limits (snd (update 4.005 4.005 4.005 pid_tightened 10)) = (-5, 5)
   \<and> integral (pid_state (snd (update 4.005 4.005 4.005 pid_tightened 10))) = 40
   \<and> snd (integral_limits (snd (update 4.005 4.005 4.005 pid_tightened 10)))
       < integral (pid_state (snd (update 4.005 4.005 4.005 pid_tightened 10)))"
proof -
  have setter: "fst (set_integral_limits pid_wound (-5) 5) = None"
    by (simp add: set_integral_limits_def)
  have after: "integral (pid_state (snd (update 4.005 4.005 4.005 pid_tightened 10))) = 40"
    by (simp add: update_integral_cases recomputes_def pid_tightened_facts)
  from setter after show ?thesis
    by (simp add: pid_wound_facts pid_tightened_facts update_limits_kept)
qed





section \<open>Coordinator cycle\<close>

lemma correction_at_420_240:
  "simple_p_status p \<noteq> SimpleP_ERROR \<Longrightarrow> image_center p = (320, 240) \<Longrightarrow>
   pan_gain p = 0.0156 \<Longrightarrow> tilt_gain p = 0.0208 \<Longrightarrow> deadband p = 5 \<Longrightarrow>
   max_correction p = 15 \<Longrightarrow>
     fst (calculate_correction t p (420, 240)) = (1.56, 0)
     \<and> simple_p_status (snd (calculate_correction t p (420, 240))) = SimpleP_READY
     \<and> image_center (snd (calculate_correction t p (420, 240))) = (320, 240)
     \<and> pan_gain (snd (calculate_correction t p (420, 240))) = 0.0156
     \<and> tilt_gain (snd (calculate_correction t p (420, 240))) = 0.0208
     \<and> deadband (snd (calculate_correction t p (420, 240))) = 5
     \<and> max_correction (snd (calculate_correction t p (420, 240))) = 15"
  by (simp add: calculate_correction_def clip_def Let_def)

lemma detection_cycle_unfold:
  "simple_p_controller c = Some p \<Longrightarrow> servo_controller c = Some sv \<Longrightarrow>
   fst (calculate_correction t p (420, 240)) = (dp, dt) \<Longrightarrow>
   is_angle_safe sv (pan_angle (status c) + dp) (tilt_angle (status c) + dt) \<Longrightarrow>
     update_tracking_control drv t now c [dog (370, 190, 470, 290)] =
       c\<lparr> simple_p_controller := Some (snd (calculate_correction t p (420, 240))),
          servo_controller :=
            Some (snd (set_angles drv sv (pan_angle (status c) + dp) (tilt_angle (status c) + dt))),
          status := (status c)
            \<lparr> mode := TRACKING,
              pan_angle := pan_angle (status c) + dp,
              tilt_angle := tilt_angle (status c) + dt,
              correction_applied := (dp, dt),
              target_detected := True,
              target_class := ''Dog'',
              target_confidence := 0.85,
              last_detection_time := Some now \<rparr> \<rparr>"
  by (cases "calculate_correction t p (420, 240)")
     (simp add: update_tracking_control_def dog_def Let_def)

lemma failed_apply_cycle_eq:
  "failed_apply_cycle =
     scanning_coordinator
       \<lparr> simple_p_controller :=
           Some (snd (calculate_correction 100
                        (SimpleProportionalController_default 640 480 0 0) (420, 240))),
         servo_controller := Some (ready_servo\<lparr> servo_status := Servo_ERROR \<rparr>),
         status := (status scanning_coordinator)
            \<lparr> mode := TRACKING, pan_angle := 1.56, tilt_angle := 0,
              correction_applied := (1.56, 0), target_detected := True,
              target_class := ''Dog'', target_confidence := 0.85,
              last_detection_time := Some 100 \<rparr> \<rparr>"
proof -
  have corr: "fst (calculate_correction 100 (SimpleProportionalController_default 640 480 0 0)
                 (420, 240)) = (1.56, 0)"
    by (rule correction_at_420_240 [THEN conjunct1]) (simp_all add: default_simple_p_eq)
  have safe: "is_angle_safe ready_servo (pan_angle (status scanning_coordinator) + 1.56)
                (tilt_angle (status scanning_coordinator) + 0)"
    by (simp add: scanning_coordinator_eq ready_servo_eq servo_defs)
  have applied: "snd (set_angles driver_pan_fails ready_servo
                 (pan_angle (status scanning_coordinator) + 1.56)
                 (tilt_angle (status scanning_coordinator) + 0))
               = ready_servo\<lparr> servo_status := Servo_ERROR \<rparr>"
    by (simp add: scanning_coordinator_eq ready_servo_eq servo_defs driver_pan_fails_def)
  have "failed_apply_cycle =
       scanning_coordinator
         \<lparr> simple_p_controller :=
             Some (snd (calculate_correction 100
                          (SimpleProportionalController_default 640 480 0 0) (420, 240))),
           servo_controller :=
            Some (snd (set_angles driver_pan_fails ready_servo
                   (pan_angle (status scanning_coordinator) + 1.56)
                   (tilt_angle (status scanning_coordinator) + 0))),
           status := (status scanning_coordinator)
            \<lparr> mode := TRACKING,
              pan_angle := pan_angle (status scanning_coordinator) + 1.56,
              tilt_angle := tilt_angle (status scanning_coordinator) + 0,
              correction_applied := (1.56, 0),
              target_detected := True,
              target_class := ''Dog'',
              target_confidence := 0.85,
              last_detection_time := Some 100 \<rparr> \<rparr>"
    unfolding failed_apply_cycle_def
    by (rule detection_cycle_unfold [OF _ _ corr safe])
       (simp_all add: scanning_coordinator_eq)
  then show ?thesis
    unfolding applied by (simp add: scanning_coordinator_eq)
qed

text \<open>
  Claim C6, at its failing input. In the first cycle the requested pair \<open>(1.56, 0)\<close> is in
  range, the driver raises, \<^verbatim>\<open>set_angles\<close> returns \<^verbatim>\<open>False\<close> and the servo controller keeps the
  recorded angles \<open>(0, 0)\<close>; the coordinator nevertheless caches the pan angle \<open>1.56\<close> and
  records the correction \<open>(1.56, 0)\<close>. In the next cycle the servo controller is in its
  error status, \<^verbatim>\<open>set_angles\<close> returns \<^verbatim>\<open>False\<close> again without any write, and the cached
  pan angle grows to \<open>3.12\<close> while the recorded servo angles stay \<open>(0, 0)\<close>.
\<close>

theorem coordinator_ignores_failed_apply:
  "fst (set_angles driver_pan_fails ready_servo 1.56 0) = False
   \<and> pan_angle (status failed_apply_cycle) = 1.56
   \<and> correction_applied (status failed_apply_cycle) = (1.56, 0)
   \<and> map_option get_current_angles (servo_controller failed_apply_cycle) = Some (0, 0)
   \<and> map_option servo_status (servo_controller failed_apply_cycle) = Some Servo_ERROR
   \<and> fst (set_angles driver_ok (ready_servo\<lparr> servo_status := Servo_ERROR \<rparr>) 3.12 0) = False
   \<and> pan_angle (status cycle_after_failure) = 3.12
   \<and> correction_applied (status cycle_after_failure) = (1.56, 0)
   \<and> map_option get_current_angles (servo_controller cycle_after_failure) = Some (0, 0)"
proof -
  let ?p = "snd (calculate_correction 100
                   (SimpleProportionalController_default 640 480 0 0) (420, 240))"
  let ?sv = "ready_servo\<lparr> servo_status := Servo_ERROR \<rparr>"
  have first_apply: "fst (set_angles driver_pan_fails ready_servo 1.56 0) = False"
    by (simp add: ready_servo_eq servo_defs driver_pan_fails_def)
  have second_apply: "fst (set_angles driver_ok ?sv 3.12 0) = False"
    by (simp add: servo_defs)
  have p_facts: "simple_p_status ?p \<noteq> SimpleP_ERROR \<and> image_center ?p = (320, 240)
      \<and> pan_gain ?p = 0.0156 \<and> tilt_gain ?p = 0.0208 \<and> deadband ?p = 5
      \<and> max_correction ?p = 15"
    using correction_at_420_240
            [of "SimpleProportionalController_default 640 480 0 0" 100]
    by (simp add: default_simple_p_eq)
  have corr: "fst (calculate_correction 101 ?p (420, 240)) = (1.56, 0)"
    using p_facts by (intro correction_at_420_240 [THEN conjunct1]) simp_all
  have safe: "is_angle_safe ?sv (pan_angle (status failed_apply_cycle) + 1.56)
                (tilt_angle (status failed_apply_cycle) + 0)"
    by (simp add: failed_apply_cycle_eq ready_servo_eq servo_defs)
  have second: "cycle_after_failure =
       failed_apply_cycle
         \<lparr> simple_p_controller := Some (snd (calculate_correction 101 ?p (420, 240))),
           servo_controller :=
            Some (snd (set_angles driver_ok ?sv
                   (pan_angle (status failed_apply_cycle) + 1.56)
                   (tilt_angle (status failed_apply_cycle) + 0))),
           status := (status failed_apply_cycle)
            \<lparr> mode := TRACKING,
              pan_angle := pan_angle (status failed_apply_cycle) + 1.56,
              tilt_angle := tilt_angle (status failed_apply_cycle) + 0,
              correction_applied := (1.56, 0),
              target_detected := True,
              target_class := ''Dog'',
              target_confidence := 0.85,
              last_detection_time := Some 101 \<rparr> \<rparr>"
    unfolding cycle_after_failure_def
    by (rule detection_cycle_unfold [OF _ _ corr safe])
       (simp_all add: failed_apply_cycle_eq)
  have not_ready: "snd (set_angles driver_ok ?sv x y) = ?sv" for x y
    by (simp add: servo_defs)
  have first_cycle: "pan_angle (status failed_apply_cycle) = 1.56
   \<and> correction_applied (status failed_apply_cycle) = (1.56, 0)
   \<and> map_option get_current_angles (servo_controller failed_apply_cycle) = Some (0, 0)
   \<and> map_option servo_status (servo_controller failed_apply_cycle) = Some Servo_ERROR"
    by (simp add: failed_apply_cycle_eq ready_servo_eq get_current_angles_def)
  have second_cycle: "pan_angle (status cycle_after_failure) = 3.12
   \<and> correction_applied (status cycle_after_failure) = (1.56, 0)
   \<and> map_option get_current_angles (servo_controller cycle_after_failure) = Some (0, 0)"
    unfolding second not_ready
    by (simp add: first_cycle ready_servo_eq get_current_angles_def)
  from first_apply second_apply first_cycle second_cycle show ?thesis by simp
qed

lemma sweep_angle_bounds: "-30 \<le> 30 * sin x \<and> 30 * sin x \<le> (30::real)"
  using sin_ge_minus_one [of x] sin_le_one [of x] by simp

lemma sweep_half_positive: "0 < sin (5 * 0.1 :: real)"
proof -
  have "(5 * 0.1 :: real) < pi" using pi_ge_two by simp
  then show ?thesis by (intro sin_gt_zero) simp_all
qed

text \<open>
  Claim C8, at its failing input. After a successful initialization the mode is
  \<^verbatim>\<open>SCANNING\<close> and no detection time is recorded; a cycle without detection then leaves the
  coordinator exactly as it was, whatever the clock and the driver: no sweep step is
  executed. The sweep step itself, had it been called at time \<open>5\<close>, would have changed the
  cached pan angle to \<open>30 * sin 0.5\<close>.
\<close>

theorem no_sweep_after_initialization:
  "mode (status scanning_coordinator) = SCANNING
   \<and> last_detection_time (status scanning_coordinator) = None
   \<and> update_tracking_control drv t now scanning_coordinator [] = scanning_coordinator
   \<and> pan_angle (status (execute_scan_pattern driver_ok 5 scanning_coordinator)) = 30 * sin (5 * 0.1)
   \<and> execute_scan_pattern driver_ok 5 scanning_coordinator \<noteq> scanning_coordinator"
proof -
  have idle: "update_tracking_control drv t now scanning_coordinator [] = scanning_coordinator"
    by (simp add: update_tracking_control_def scanning_coordinator_eq)
  have in_range: "is_angle_safe ready_servo a 0" if "-30 \<le> a \<and> a \<le> 30" for a
    using that by (simp add: ready_servo_eq servo_defs)
  have safe: "is_angle_safe ready_servo (30 * sin (5 * 0.1)) 0"
    by (rule in_range) (rule sweep_angle_bounds)
  have servo: "servo_controller scanning_coordinator = Some ready_servo"
    by (simp add: scanning_coordinator_eq)
  have swept: "pan_angle (status (execute_scan_pattern driver_ok 5 scanning_coordinator))
                 = 30 * sin (5 * 0.1)"
    using safe by (simp add: execute_scan_pattern_def servo Let_def)
  have "pan_angle (status (execute_scan_pattern driver_ok 5 scanning_coordinator))
          \<noteq> pan_angle (status scanning_coordinator)"
    unfolding swept using sweep_half_positive by (simp add: scanning_coordinator_eq)
  then have moved: "execute_scan_pattern driver_ok 5 scanning_coordinator \<noteq> scanning_coordinator"
    by auto
  from idle swept moved show ?thesis
    by (simp add: scanning_coordinator_eq)
qed

text \<open>
  The sweep step as the code has it. When a cycle has no detection and the time since the
  recorded last detection exceeds the timeout, the cycle is the sweep step applied to the
  coordinator with the detection flag cleared (and the mode demoted if it was
  \<^verbatim>\<open>TRACKING\<close>); in every other cycle without detection only the flag is cleared. The
  sweep angle \<open>30 * sin (0.1 * t)\<close> lies within \<open>[-30, 30]\<close>. With a servo controller
  present, the step passes the pair (angle, 0) through \<^verbatim>\<open>is_angle_safe\<close>: if the pair is
  in range it is given to \<^verbatim>\<open>set_angles\<close> and cached, otherwise nothing changes; the
  driver objects are written only when the pair is in range and the controller ready.
\<close>

theorem scan_step_guarded:
  "(last_detection_time (status c) = Some t0 \<and> now - t0 > lost_target_timeout c \<longrightarrow>
      update_tracking_control drv t now c [] =
        execute_scan_pattern drv t
          (c\<lparr> status := (status c)
                \<lparr> target_detected := False,
                  mode := (if mode (status c) = TRACKING then SCANNING else mode (status c)) \<rparr> \<rparr>))
   \<and> (last_detection_time (status c) = None
        \<or> (last_detection_time (status c) = Some t0 \<and> now - t0 \<le> lost_target_timeout c) \<longrightarrow>
      update_tracking_control drv t now c [] =
        c\<lparr> status := (status c)\<lparr> target_detected := False \<rparr> \<rparr>)
   \<and> -30 \<le> 30 * sin (t * 0.1) \<and> 30 * sin (t * 0.1) \<le> 30
   \<and> (servo_controller c = Some sv \<and> is_angle_safe sv (30 * sin (t * 0.1)) 0 \<longrightarrow>
        execute_scan_pattern drv t c =
          c\<lparr> servo_controller := Some (snd (set_angles drv sv (30 * sin (t * 0.1)) 0)),
             status := (status c)\<lparr> pan_angle := 30 * sin (t * 0.1), tilt_angle := 0 \<rparr> \<rparr>)
   \<and> (servo_controller c = Some sv \<and> \<not> is_angle_safe sv (30 * sin (t * 0.1)) 0 \<longrightarrow>
        execute_scan_pattern drv t c = c)
   \<and> (pan_servo (snd (set_angles drv sv x y)) \<noteq> pan_servo sv
        \<or> tilt_servo (snd (set_angles drv sv x y)) \<noteq> tilt_servo sv \<longrightarrow>
        is_angle_safe sv x y \<and> is_ready sv)"
proof -
  have sweep: "update_tracking_control drv t now c [] =
        execute_scan_pattern drv t
          (c\<lparr> status := (status c)
                \<lparr> target_detected := False,
                  mode := (if mode (status c) = TRACKING then SCANNING else mode (status c)) \<rparr> \<rparr>)"
    if "last_detection_time (status c) = Some t0" "now - t0 > lost_target_timeout c"
    using that by (simp add: update_tracking_control_def Let_def)
  have idle: "update_tracking_control drv t now c [] =
        c\<lparr> status := (status c)\<lparr> target_detected := False \<rparr> \<rparr>"
    if "last_detection_time (status c) = None
        \<or> (last_detection_time (status c) = Some t0 \<and> now - t0 \<le> lost_target_timeout c)"
    using that by (auto simp: update_tracking_control_def Let_def)
  have accepted: "execute_scan_pattern drv t c =
          c\<lparr> servo_controller := Some (snd (set_angles drv sv (30 * sin (t * 0.1)) 0)),
             status := (status c)\<lparr> pan_angle := 30 * sin (t * 0.1), tilt_angle := 0 \<rparr> \<rparr>"
    if "servo_controller c = Some sv" "is_angle_safe sv (30 * sin (t * 0.1)) 0"
    using that by (simp add: execute_scan_pattern_def Let_def)
  have refused: "execute_scan_pattern drv t c = c"
    if "servo_controller c = Some sv" "\<not> is_angle_safe sv (30 * sin (t * 0.1)) 0"
    using that by (simp add: execute_scan_pattern_def Let_def)
  have written: "is_angle_safe sv x y \<and> is_ready sv"
    if "pan_servo (snd (set_angles drv sv x y)) \<noteq> pan_servo sv
        \<or> tilt_servo (snd (set_angles drv sv x y)) \<noteq> tilt_servo sv"
    using that by (auto simp: set_angles_def split: if_splits)
  from sweep idle accepted refused written sweep_angle_bounds [of "t * 0.1"]
  show ?thesis by blast
qed

lemma tracking_coordinator_servo:
  "servo_controller tracking_coordinator =
     Some (ready_servo\<lparr> pan_servo := Some 91.56, tilt_servo := Some 90,
                         current_pan_angle := 1.56, current_tilt_angle := 0 \<rparr>)"
  by (simp add: tracking_coordinator_def update_tracking_control_def scanning_coordinator_eq
        dog_def default_simple_p_eq calculate_correction_def clip_def ready_servo_eq servo_defs
        driver_ok_def pan_angle_to_servo_def tilt_angle_to_servo_def Let_def)

text \<open>
  The theorem at the tracking coordinator of the run above (last detection at \<open>100\<close>,
  timeout \<open>5\<close>): the cycle without detection at \<open>106\<close> is the sweep step, and the step at
  clock \<open>0\<close> moves to the pair \<open>(0, 0)\<close>; at \<open>104\<close> only the detection flag is cleared.
\<close>

theorem scan_step_guarded_witness:
  "update_tracking_control driver_ok 0 106 tracking_coordinator [] =
     execute_scan_pattern driver_ok 0
       (tracking_coordinator\<lparr> status := (status tracking_coordinator)
           \<lparr> target_detected := False, mode := SCANNING \<rparr> \<rparr>)
   \<and> pan_angle (status (execute_scan_pattern driver_ok 0
       (tracking_coordinator\<lparr> status := (status tracking_coordinator)
           \<lparr> target_detected := False, mode := SCANNING \<rparr> \<rparr>))) = 0
   \<and> update_tracking_control driver_ok 0 104 tracking_coordinator [] =
       tracking_coordinator\<lparr> status := (status tracking_coordinator)
           \<lparr> target_detected := False \<rparr> \<rparr>"
proof -
  let ?c = "tracking_coordinator\<lparr> status := (status tracking_coordinator)
              \<lparr> target_detected := False, mode := SCANNING \<rparr> \<rparr>"
  let ?sv = "ready_servo\<lparr> pan_servo := Some 91.56, tilt_servo := Some 90,
                          current_pan_angle := 1.56, current_tilt_angle := 0 \<rparr>"
  note lost = scan_step_guarded
      [where c = tracking_coordinator and ?t0.0 = 100 and now = 106 and drv = driver_ok
         and t = 0 and x = 0 and y = 0 and sv = ?sv]
  note held = scan_step_guarded
      [where c = tracking_coordinator and ?t0.0 = 100 and now = 104 and drv = driver_ok
         and t = 0 and x = 0 and y = 0 and sv = ?sv]
  note swept = scan_step_guarded
      [where c = ?c and ?t0.0 = 100 and now = 106 and drv = driver_ok
         and t = 0 and x = 0 and y = 0 and sv = ?sv]
  have a: "update_tracking_control driver_ok 0 106 tracking_coordinator [] =
     execute_scan_pattern driver_ok 0 ?c"
    using lost by (simp add: tracking_coordinator_status)
  have safe: "is_angle_safe ?sv (30 * sin (0 * 0.1)) 0"
    by (simp add: ready_servo_eq is_angle_safe_def is_pan_angle_safe_def
          is_tilt_angle_safe_def)
  have servo: "servo_controller ?c = Some ?sv"
    by (simp add: tracking_coordinator_servo)
  from swept servo safe have
    "execute_scan_pattern driver_ok 0 ?c =
       ?c\<lparr> servo_controller := Some (snd (set_angles driver_ok ?sv (30 * sin (0 * 0.1)) 0)),
           status := (status ?c)\<lparr> pan_angle := 30 * sin (0 * 0.1), tilt_angle := 0 \<rparr> \<rparr>"
    by blast
  then have b: "pan_angle (status (execute_scan_pattern driver_ok 0 ?c)) = 0"
    by simp
  have c: "update_tracking_control driver_ok 0 104 tracking_coordinator [] =
       tracking_coordinator\<lparr> status := (status tracking_coordinator)
           \<lparr> target_detected := False \<rparr> \<rparr>"
    using held by (simp add: tracking_coordinator_status)
  from a b c show ?thesis by simp
qed

text \<open>
  The detection branch of a cycle as the code has it. With both controllers present,
  the new pair is the cached pair plus the correction. If \<^verbatim>\<open>is_angle_safe\<close> accepts it,
  the pair is given to \<^verbatim>\<open>set_angles\<close> and the cached angles and the recorded correction
  are updated, whatever \<^verbatim>\<open>set_angles\<close> returns. If it is out of range, \<^verbatim>\<open>set_angles\<close> is not
  called and the servo controller, the cached angles and the recorded correction stay as
  they were. In both cases the cycle ends with the detection recorded.
\<close>

theorem detection_cycle_cache:
  "simple_p_controller c = Some p \<and> servo_controller c = Some sv
     \<and> bbox d = (x1, y1, x2, y2)
     \<and> fst (calculate_correction t p ((x1 + x2) / 2, (y1 + y2) / 2)) = (dp, dt) \<longrightarrow>
   (is_angle_safe sv (pan_angle (status c) + dp) (tilt_angle (status c) + dt) \<longrightarrow>
      pan_angle (status (update_tracking_control drv t now c (d # ds)))
        = pan_angle (status c) + dp
    \<and> tilt_angle (status (update_tracking_control drv t now c (d # ds)))
        = tilt_angle (status c) + dt
    \<and> correction_applied (status (update_tracking_control drv t now c (d # ds))) = (dp, dt)
    \<and> servo_controller (update_tracking_control drv t now c (d # ds))
        = Some (snd (set_angles drv sv (pan_angle (status c) + dp) (tilt_angle (status c) + dt))))
   \<and> (\<not> is_angle_safe sv (pan_angle (status c) + dp) (tilt_angle (status c) + dt) \<longrightarrow>
      pan_angle (status (update_tracking_control drv t now c (d # ds))) = pan_angle (status c)
    \<and> tilt_angle (status (update_tracking_control drv t now c (d # ds))) = tilt_angle (status c)
    \<and> correction_applied (status (update_tracking_control drv t now c (d # ds)))
        = correction_applied (status c)
    \<and> servo_controller (update_tracking_control drv t now c (d # ds)) = Some sv)
   \<and> target_detected (status (update_tracking_control drv t now c (d # ds)))
   \<and> target_class (status (update_tracking_control drv t now c (d # ds))) = class_name d
   \<and> target_confidence (status (update_tracking_control drv t now c (d # ds))) = confidence d
   \<and> last_detection_time (status (update_tracking_control drv t now c (d # ds))) = Some now"
  by (cases "calculate_correction t p ((x1 + x2) / 2, (y1 + y2) / 2)")
     (simp add: update_tracking_control_def Let_def)

text \<open>
  The theorem at the initialized default coordinator (the pair \<open>(1.56, 0)\<close> is accepted)
  and at the same coordinator with the cached pan angle \<open>89\<close> (the pair \<open>(90.56, 0)\<close> is
  refused and the cache stays).
\<close>

theorem detection_cycle_cache_witness:
  "pan_angle (status (update_tracking_control driver_ok 100 100 scanning_coordinator
                        [dog (370, 190, 470, 290)])) = 1.56
   \<and> correction_applied (status (update_tracking_control driver_ok 100 100 scanning_coordinator
                        [dog (370, 190, 470, 290)])) = (1.56, 0)
   \<and> pan_angle (status (update_tracking_control driver_ok 100 100 coordinator_at_edge
                        [dog (370, 190, 470, 290)])) = 89
   \<and> correction_applied (status (update_tracking_control driver_ok 100 100 coordinator_at_edge
                        [dog (370, 190, 470, 290)])) = (0, 0)
   \<and> servo_controller (update_tracking_control driver_ok 100 100 coordinator_at_edge
                        [dog (370, 190, 470, 290)]) = Some ready_servo"
proof -
  have corr: "fst (calculate_correction 100 (SimpleProportionalController_default 640 480 0 0)
                 ((370 + 470) / 2, (190 + 290) / 2)) = (1.56, 0)"
    using correction_at_420_240 [of "SimpleProportionalController_default 640 480 0 0" 100]
    by (simp add: default_simple_p_eq)
  note accepted = detection_cycle_cache
      [where c = scanning_coordinator and p = "SimpleProportionalController_default 640 480 0 0"
         and sv = ready_servo and d = "dog (370, 190, 470, 290)"
         and ?x1.0 = 370 and ?y1.0 = 190 and ?x2.0 = 470 and ?y2.0 = 290
         and t = 100 and dp = "1.56" and dt = 0 and drv = driver_ok and now = 100 and ds = "[]"]
  note refused = detection_cycle_cache
      [where c = coordinator_at_edge and p = "SimpleProportionalController_default 640 480 0 0"
         and sv = ready_servo and d = "dog (370, 190, 470, 290)"
         and ?x1.0 = 370 and ?y1.0 = 190 and ?x2.0 = 470 and ?y2.0 = 290
         and t = 100 and dp = "1.56" and dt = 0 and drv = driver_ok and now = 100 and ds = "[]"]
  have a: "pan_angle (status (update_tracking_control driver_ok 100 100 scanning_coordinator
                        [dog (370, 190, 470, 290)])) = 1.56
   \<and> correction_applied (status (update_tracking_control driver_ok 100 100 scanning_coordinator
                        [dog (370, 190, 470, 290)])) = (1.56, 0)"
    using accepted corr
    by (simp add: scanning_coordinator_eq dog_def ready_servo_eq is_angle_safe_def
          is_pan_angle_safe_def is_tilt_angle_safe_def)
  have b: "pan_angle (status (update_tracking_control driver_ok 100 100 coordinator_at_edge
                        [dog (370, 190, 470, 290)])) = 89
   \<and> correction_applied (status (update_tracking_control driver_ok 100 100 coordinator_at_edge
                        [dog (370, 190, 470, 290)])) = (0, 0)
   \<and> servo_controller (update_tracking_control driver_ok 100 100 coordinator_at_edge
                        [dog (370, 190, 470, 290)]) = Some ready_servo"
    using refused corr
    by (simp add: coordinator_at_edge_def scanning_coordinator_eq dog_def ready_servo_eq
          is_angle_safe_def is_pan_angle_safe_def is_tilt_angle_safe_def)
  from a b show ?thesis by simp
qed

end
